theory Spec2Isabelle
  imports Complex_Main
begin

section \<open>JavaScript values and the SDK's error classes (errors.ts)\<close>

text \<open>
  The error codes of \<^verbatim>\<open>enum ErrorCode\<close>, in source order.
\<close>

datatype ErrorCode =
    AUTHENTICATION_FAILED | TOKEN_EXPIRED | TOKEN_REFRESH_FAILED
  | NETWORK_ERROR | REQUEST_TIMEOUT | REQUEST_FAILED
  | MICROPHONE_ACCESS_DENIED | RECORDING_NOT_SUPPORTED | RECORDING_FAILED | RECORDING_TOO_LONG
  | UPLOAD_FAILED | FILE_TOO_LARGE | INVALID_FILE_FORMAT
  | INVALID_CONFIG | MISSING_TOKEN_ENDPOINT
  | UNKNOWN_ERROR | VALIDATION_ERROR

text \<open>
  The classes below \<^verbatim>\<open>VocaFuseError\<close>. \<^verbatim>\<open>x instanceof NetworkError\<close> holds when the
  object was built by that subclass; \<^verbatim>\<open>x instanceof VocaFuseError\<close> holds for all of them.
\<close>

datatype VocaFuseClass =
  VocaFuseErrorClass | AuthenticationErrorClass | NetworkErrorClass
  | VoicenoteErrorClass | UploadErrorClass | ConfigurationErrorClass

text \<open>
  A JavaScript value (what the source types as \<^verbatim>\<open>unknown\<close>): JSON data, or an error
  object. Numbers are idealised as reals. An object is the list of its own properties in
  insertion order. \<^verbatim>\<open>Error\<close> is a native error (\<^verbatim>\<open>TypeError\<close>, a \<^verbatim>\<open>DOMException\<close> named
  \<^verbatim>\<open>AbortError\<close>, ...); \<^verbatim>\<open>VocaFuseError\<close> carries the fields the class of that name
  declares. Object identity is modelled by equality of values.
\<close>

datatype jsval =
    JUndefined | JNull | JBool bool | JNum real | JStr string
  | JArr "jsval list" | JObj "(string \<times> jsval) list" | JErr jserror
and jserror =
    Error (name: string) (message: string)
  | VocaFuseError (cls: VocaFuseClass) (name: string) (code: ErrorCode) (message: string)
      (originalError: "jserror option") (errContext: "(string \<times> jsval) list")
      (retryable: bool) (userMessage: string)

text \<open>\<^verbatim>\<open>ErrorDetails\<close>: the argument of the \<^verbatim>\<open>VocaFuseError\<close> constructor.\<close>

record ErrorDetails =
  d_code :: ErrorCode
  d_message :: string
  d_originalError :: "jserror option"
  d_context :: "(string \<times> jsval) list option"
  d_retryable :: "bool option"
  d_userMessage :: "string option"

definition instanceof_VocaFuseError :: "jserror \<Rightarrow> bool" where
  "instanceof_VocaFuseError e = (case e of Error _ _ \<Rightarrow> False | VocaFuseError _ _ _ _ _ _ _ _ \<Rightarrow> True)"

definition instanceof_class :: "VocaFuseClass \<Rightarrow> jserror \<Rightarrow> bool" where
  "instanceof_class c e = (case e of Error _ _ \<Rightarrow> False | VocaFuseError k _ _ _ _ _ _ _ \<Rightarrow> k = c)"

text \<open>\<^verbatim>\<open>getDefaultUserMessage\<close>.\<close>

fun getDefaultUserMessage :: "ErrorCode \<Rightarrow> string" where
  "getDefaultUserMessage MICROPHONE_ACCESS_DENIED = ''Please allow microphone access to record audio.''"
| "getDefaultUserMessage RECORDING_NOT_SUPPORTED = ''Audio voicenote is not supported in this browser.''"
| "getDefaultUserMessage NETWORK_ERROR = ''Network connection failed. Please check your internet connection.''"
| "getDefaultUserMessage TOKEN_EXPIRED = ''Your session has expired. Please refresh and try again.''"
| "getDefaultUserMessage FILE_TOO_LARGE = ''The audio file is too large to upload.''"
| "getDefaultUserMessage RECORDING_TOO_LONG = ''Voicenote is too long. Maximum duration is 60 seconds.''"
| "getDefaultUserMessage _ = ''An unexpected error occurred. Please try again.''"

text \<open>
  The constructor of \<^verbatim>\<open>VocaFuseError\<close>, with the class and the \<^verbatim>\<open>name\<close> the subclass
  constructor assigns afterwards. \<^verbatim>\<open>a || b\<close> takes \<^verbatim>\<open>b\<close> when \<^verbatim>\<open>a\<close> is undefined, and
  also when it is \<^verbatim>\<open>false\<close> or the empty string.
\<close>

definition new_VocaFuseError :: "VocaFuseClass \<Rightarrow> string \<Rightarrow> ErrorDetails \<Rightarrow> jserror" where
  "new_VocaFuseError c nm d =
     VocaFuseError c nm (d_code d) (d_message d) (d_originalError d)
       (case d_context d of None \<Rightarrow> [] | Some cx \<Rightarrow> cx)
       (case d_retryable d of None \<Rightarrow> False | Some r \<Rightarrow> r)
       (case d_userMessage d of None \<Rightarrow> getDefaultUserMessage (d_code d)
        | Some u \<Rightarrow> if u = [] then getDefaultUserMessage (d_code d) else u)"

definition AuthenticationError :: "string \<Rightarrow> jserror option \<Rightarrow> (string \<times> jsval) list option \<Rightarrow> jserror" where
  "AuthenticationError msg orig cx =
     new_VocaFuseError AuthenticationErrorClass ''AuthenticationError''
       \<lparr>d_code = AUTHENTICATION_FAILED, d_message = msg, d_originalError = orig, d_context = cx,
        d_retryable = Some False,
        d_userMessage = Some ''Authentication failed. Please check your credentials.''\<rparr>"

definition NetworkError :: "string \<Rightarrow> jserror option \<Rightarrow> bool \<Rightarrow> (string \<times> jsval) list option \<Rightarrow> jserror" where
  "NetworkError msg orig rt cx =
     new_VocaFuseError NetworkErrorClass ''NetworkError''
       \<lparr>d_code = NETWORK_ERROR, d_message = msg, d_originalError = orig, d_context = cx,
        d_retryable = Some rt,
        d_userMessage = Some ''Network error occurred. Please check your connection and try again.''\<rparr>"

definition VoicenoteError :: "ErrorCode \<Rightarrow> string \<Rightarrow> jserror option \<Rightarrow> (string \<times> jsval) list option \<Rightarrow> jserror" where
  "VoicenoteError c msg orig cx =
     new_VocaFuseError VoicenoteErrorClass ''VoicenoteError''
       \<lparr>d_code = c, d_message = msg, d_originalError = orig, d_context = cx,
        d_retryable = Some False, d_userMessage = None\<rparr>"

definition UploadError :: "string \<Rightarrow> jserror option \<Rightarrow> bool \<Rightarrow> (string \<times> jsval) list option \<Rightarrow> jserror" where
  "UploadError msg orig rt cx =
     new_VocaFuseError UploadErrorClass ''UploadError''
       \<lparr>d_code = UPLOAD_FAILED, d_message = msg, d_originalError = orig, d_context = cx,
        d_retryable = Some rt, d_userMessage = Some ''Upload failed. Please try again.''\<rparr>"

text \<open>
  Writing a property of an object literal: \<^verbatim>\<open>{...context, originalValue: error}\<close> replaces
  the value of a key the spread already brought and appends a new key otherwise.
\<close>

fun obj_set :: "string \<Rightarrow> jsval \<Rightarrow> (string \<times> jsval) list \<Rightarrow> (string \<times> jsval) list" where
  "obj_set k v [] = [(k, v)]"
| "obj_set k v ((k', v') # kvs) = (if k' = k then (k, v) # kvs else (k', v') # obj_set k v kvs)"

definition spread :: "(string \<times> jsval) list option \<Rightarrow> (string \<times> jsval) list" where
  "spread cx = (case cx of None \<Rightarrow> [] | Some kvs \<Rightarrow> kvs)"

text \<open>
  \<^verbatim>\<open>wrapUnknownError(error, context)\<close>: a \<^verbatim>\<open>VocaFuseError\<close> is returned as it is; a native
  \<^verbatim>\<open>Error\<close> is wrapped with its message; any other value is stored in the context.
\<close>

definition wrapUnknownError :: "jsval \<Rightarrow> (string \<times> jsval) list option \<Rightarrow> jserror" where
  "wrapUnknownError error cx =
     (case error of
        JErr e \<Rightarrow>
          if instanceof_VocaFuseError e then e
          else new_VocaFuseError VocaFuseErrorClass ''VocaFuseError''
                 \<lparr>d_code = UNKNOWN_ERROR, d_message = message e, d_originalError = Some e,
                  d_context = cx, d_retryable = None, d_userMessage = None\<rparr>
      | _ \<Rightarrow>
          new_VocaFuseError VocaFuseErrorClass ''VocaFuseError''
            \<lparr>d_code = UNKNOWN_ERROR, d_message = ''An unknown error occurred'',
             d_originalError = None,
             d_context = Some (obj_set ''originalValue'' error (spread cx)),
             d_retryable = None, d_userMessage = None\<rparr>)"

text \<open>
  \<^verbatim>\<open>createErrorFromResponse(response, responseBody, context)\<close> reads the status and the
  status text of the response only; they are passed directly. Decimal rendering of the
  status for the message \<^verbatim>\<open>`HTTP ${status}: ${statusText}`\<close>:
\<close>

fun string_of_nat :: "nat \<Rightarrow> string" where
  "string_of_nat n =
     (if n < 10 then [''0123456789'' ! n]
      else string_of_nat (n div 10) @ [''0123456789'' ! (n mod 10)])"

declare string_of_nat.simps [simp del]

definition createErrorFromResponse ::
  "nat \<Rightarrow> string \<Rightarrow> jsval \<Rightarrow> (string \<times> jsval) list option \<Rightarrow> jserror" where
  "createErrorFromResponse status statusText responseBody cx =
     (let (code, retryable) =
            (if status = 401 then (AUTHENTICATION_FAILED, False)
             else if status = 403 then (AUTHENTICATION_FAILED, False)
             else if status = 413 then (FILE_TOO_LARGE, False)
             else if status = 429 then (REQUEST_FAILED, True)
             else if status \<ge> 500 then (REQUEST_FAILED, True)
             else (REQUEST_FAILED, False))
      in new_VocaFuseError VocaFuseErrorClass ''VocaFuseError''
           \<lparr>d_code = code,
            d_message = ''HTTP '' @ string_of_nat status @ '': '' @ statusText,
            d_originalError = None,
            d_context = Some (obj_set ''responseBody'' responseBody
                               (obj_set ''statusText'' (JStr statusText)
                                 (obj_set ''status'' (JNum (real status)) (spread cx)))),
            d_retryable = Some retryable, d_userMessage = None\<rparr>)"

section \<open>Numbers as the platform computes them\<close>

text \<open>
  A number of the language is a double: a finite value, an infinity, or \<^verbatim>\<open>NaN\<close>. The
  operators below follow IEEE 754 on the special values. On finite operands they round
  the exact result by \<open>fl\<close>, the rounding of a real to the nearest double, which yields
  an infinity beyond the range of doubles. The sign of zero is not kept.
\<close>

datatype jsnum = NaN | NegInf | Fin real | PosInf

text \<open>The operator \<^verbatim>\<open><=\<close>: false as soon as one side is \<^verbatim>\<open>NaN\<close>.\<close>

fun js_le :: "jsnum \<Rightarrow> jsnum \<Rightarrow> bool" where
  "js_le NaN b = False"
| "js_le a NaN = False"
| "js_le NegInf b = True"
| "js_le a PosInf = True"
| "js_le (Fin x) (Fin y) = (x \<le> y)"
| "js_le a b = False"

fun js_sgn :: "jsnum \<Rightarrow> real" where
  "js_sgn NaN = 0"
| "js_sgn NegInf = - 1"
| "js_sgn (Fin x) = sgn x"
| "js_sgn PosInf = 1"

text \<open>
  The operator \<^verbatim>\<open>*\<close>: with an infinite operand the result is the infinity of the product
  of the signs, and \<^verbatim>\<open>NaN\<close> when the other operand is zero.
\<close>

fun js_mul :: "(real \<Rightarrow> jsnum) \<Rightarrow> jsnum \<Rightarrow> jsnum \<Rightarrow> jsnum" where
  "js_mul fl NaN b = NaN"
| "js_mul fl a NaN = NaN"
| "js_mul fl (Fin x) (Fin y) = fl (x * y)"
| "js_mul fl a b =
     (if js_sgn a * js_sgn b = 0 then NaN
      else if js_sgn a * js_sgn b > 0 then PosInf
      else NegInf)"

text \<open>The operator \<^verbatim>\<open>+\<close>: infinities of opposite sign add up to \<^verbatim>\<open>NaN\<close>.\<close>

fun js_add :: "(real \<Rightarrow> jsnum) \<Rightarrow> jsnum \<Rightarrow> jsnum \<Rightarrow> jsnum" where
  "js_add fl NaN b = NaN"
| "js_add fl a NaN = NaN"
| "js_add fl (Fin x) (Fin y) = fl (x + y)"
| "js_add fl PosInf NegInf = NaN"
| "js_add fl NegInf PosInf = NaN"
| "js_add fl PosInf b = PosInf"
| "js_add fl a PosInf = PosInf"
| "js_add fl NegInf b = NegInf"
| "js_add fl a NegInf = NegInf"

text \<open>\<^verbatim>\<open>Math.min\<close> of two numbers: \<^verbatim>\<open>NaN\<close> when one of them is.\<close>

definition Math_min :: "jsnum \<Rightarrow> jsnum \<Rightarrow> jsnum" where
  "Math_min a b = (if a = NaN \<or> b = NaN then NaN else if js_le a b then a else b)"

text \<open>
  \<^verbatim>\<open>Math.pow(x, k)\<close> for an exponent \<open>k = 0, 1, 2, ...\<close>: 1 for \<open>k = 0\<close> whatever
  \<open>x\<close> is, and else, for a finite \<open>x\<close>, the exact power, rounded.
\<close>

definition Math_pow :: "(real \<Rightarrow> jsnum) \<Rightarrow> jsnum \<Rightarrow> nat \<Rightarrow> jsnum" where
  "Math_pow fl x k =
     (if k = 0 then Fin 1
      else case x of
             NaN \<Rightarrow> NaN
           | Fin v \<Rightarrow> fl (v ^ k)
           | PosInf \<Rightarrow> PosInf
           | NegInf \<Rightarrow> if even k then PosInf else NegInf)"

text \<open>
  What the theorems below assume of the rounding: it never yields \<^verbatim>\<open>NaN\<close>, it is
  monotone, it keeps 0 and 1, and it keeps every value that it yields. Rounding to the
  nearest double has these properties.
\<close>

definition rounding :: "(real \<Rightarrow> jsnum) \<Rightarrow> bool" where
  "rounding fl =
     ((\<forall>x. fl x \<noteq> NaN) \<and> (\<forall>x y. x \<le> y \<longrightarrow> js_le (fl x) (fl y))
      \<and> fl 0 = Fin 0 \<and> fl 1 = Fin 1 \<and> (\<forall>x y. fl x = Fin y \<longrightarrow> fl y = Fin y))"

text \<open>
  One such rounding: exact inside the range of doubles, and outside of it as doubles are.
  \<open>MAX_VALUE\<close> is the largest double; an exact result of at least \<open>OVERFLOW\<close>
  rounds to \<^verbatim>\<open>Infinity\<close>, and one between the two to \<open>MAX_VALUE\<close>. It agrees with the
  platform wherever the exact results are doubles themselves.
\<close>

definition MAX_VALUE :: real where
  "MAX_VALUE = (2 ^ 53 - 1) * 2 ^ 971"

definition OVERFLOW :: real where
  "OVERFLOW = 2 ^ 1024 - 2 ^ 970"

definition round_in_range :: "real \<Rightarrow> jsnum" where
  "round_in_range x =
     (if x \<ge> OVERFLOW then PosInf
      else if x \<le> - OVERFLOW then NegInf
      else if x > MAX_VALUE then Fin MAX_VALUE
      else if x < - MAX_VALUE then Fin (- MAX_VALUE)
      else Fin x)"

section \<open>The HTTP client (client.ts)\<close>

text \<open>
  \<^verbatim>\<open>RetryOptions\<close>: the three delays and factors are numbers of any kind, as the constructor
  takes them without a check.
\<close>

record RetryOptions =
  maxRetries :: int
  baseDelay :: jsnum
  maxDelay :: jsnum
  backoffFactor :: jsnum

record HttpClient =
  baseUrl :: string
  timeout :: real
  retryOptions :: RetryOptions

text \<open>The constructor's defaults, used when the configuration gives no \<^verbatim>\<open>retries\<close>.\<close>

definition defaultRetryOptions :: RetryOptions where
  "defaultRetryOptions =
     \<lparr>maxRetries = 3, baseDelay = Fin 1000, maxDelay = Fin 10000, backoffFactor = Fin 2\<rparr>"

definition new_HttpClient :: "string option \<Rightarrow> real option \<Rightarrow> RetryOptions option \<Rightarrow> HttpClient" where
  "new_HttpClient cfgBaseUrl cfgTimeout cfgRetries =
     \<lparr>baseUrl = (case cfgBaseUrl of None \<Rightarrow> [] | Some b \<Rightarrow> b),
      timeout = (case cfgTimeout of None \<Rightarrow> 30000 | Some t \<Rightarrow> if t = 0 then 30000 else t),
      retryOptions = (case cfgRetries of None \<Rightarrow> defaultRetryOptions | Some r \<Rightarrow> r)\<rparr>"

definition startsWith :: "string \<Rightarrow> string \<Rightarrow> bool" where
  "startsWith s p = (take (length p) s = p)"

fun includes' :: "string \<Rightarrow> string \<Rightarrow> bool" where
  "includes' [] p = (p = [])"
| "includes' (c # s) p = (startsWith (c # s) p \<or> includes' s p)"

definition buildUrl :: "HttpClient \<Rightarrow> string \<Rightarrow> string" where
  "buildUrl c url =
     (if startsWith url ''http://'' \<or> startsWith url ''https://'' then url
      else let base = (if baseUrl c \<noteq> [] \<and> last (baseUrl c) = CHR ''/'' then butlast (baseUrl c)
                       else baseUrl c);
               path = (if startsWith url ''/'' then url else ''/'' @ url)
           in base @ path)"

text \<open>
  A \<^verbatim>\<open>Response\<close> of the platform: the status line, the headers (names in lower case, as
  \<^verbatim>\<open>Headers.get\<close> compares them without case), and what \<^verbatim>\<open>response.json()\<close> and
  \<^verbatim>\<open>response.text()\<close> settle with (\<open>Inl\<close>: the promise rejects).
\<close>

record Response =
  status :: nat
  statusText :: string
  headers :: "(string \<times> string) list"
  json :: "jserror + jsval"
  text' :: "jserror + string"

definition ok :: "Response \<Rightarrow> bool" where
  "ok r = (200 \<le> status r \<and> status r \<le> 299)"

definition headers_get :: "Response \<Rightarrow> string \<Rightarrow> string option" where
  "headers_get r k = map_of (headers r) k"

text \<open>What \<^verbatim>\<open>fetch\<close> settles with at one attempt.\<close>

datatype fetch_outcome = Resolves Response | Rejects jserror

text \<open>
  \<^verbatim>\<open>executeRequest\<close>: \<^verbatim>\<open>fetch\<close> rejects with a \<^verbatim>\<open>TypeError\<close> or with a
  \<^verbatim>\<open>DOMException\<close>, both instances of \<^verbatim>\<open>Error\<close>; an abort (the timeout firing, or the
  caller's signal) is the \<^verbatim>\<open>DOMException\<close> named \<^verbatim>\<open>AbortError\<close>.
\<close>

definition executeRequest :: "string \<Rightarrow> fetch_outcome \<Rightarrow> jserror + Response" where
  "executeRequest url f =
     (case f of
        Resolves response \<Rightarrow> Inr response
      | Rejects error \<Rightarrow>
          if name error = ''AbortError''
          then Inl (NetworkError ''Request timeout'' (Some error) False (Some [(''url'', JStr url)]))
          else Inl (NetworkError ''Network request failed'' (Some error) True (Some [(''url'', JStr url)])))"

text \<open>
  The body as \<^verbatim>\<open>processResponse\<close> reads it: JSON when the content type says so, the
  raw text otherwise.
\<close>

definition readBody :: "Response \<Rightarrow> jserror + jsval" where
  "readBody r =
     (case headers_get r ''content-type'' of
        None \<Rightarrow> map_sum id JStr (text' r)
      | Some contentType \<Rightarrow>
          if contentType \<noteq> [] \<and> includes' contentType ''application/json'' then json r
          else map_sum id JStr (text' r))"

text \<open>
  \<^verbatim>\<open>typeof b === 'object' && b !== null && 'data' in b\<close>: an object with a property
  \<^verbatim>\<open>data\<close>. Arrays are objects too, but a parsed array has index properties only.
\<close>

fun hasData :: "jsval \<Rightarrow> bool" where
  "hasData (JObj kvs) = (''data'' \<in> set (map fst kvs))"
| "hasData _ = False"

text \<open>The last two steps of \<^verbatim>\<open>processResponse\<close>: an envelope passes, anything else is wrapped.\<close>

definition normalizeEnvelope :: "Response \<Rightarrow> jsval \<Rightarrow> jsval" where
  "normalizeEnvelope r responseBody =
     (if hasData responseBody then responseBody
      else JObj [(''object'', JStr ''response''),
                 (''data'', responseBody),
                 (''request_id'', JStr (case headers_get r ''x-request-id'' of
                                          None \<Rightarrow> ''unknown''
                                        | Some v \<Rightarrow> if v = [] then ''unknown'' else v))])"

definition processResponse :: "Response \<Rightarrow> jserror + jsval" where
  "processResponse r =
     (case readBody r of
        Inl error \<Rightarrow>
          Inl (NetworkError ''Failed to parse response'' (Some error) False
                 (Some [(''status'', JNum (real (status r))), (''statusText'', JStr (statusText r))]))
      | Inr responseBody \<Rightarrow>
          if \<not> ok r then Inl (createErrorFromResponse (status r) (statusText r) responseBody None)
          else Inr (normalizeEnvelope r responseBody))"

definition shouldRetry :: "HttpClient \<Rightarrow> jserror \<Rightarrow> nat \<Rightarrow> bool" where
  "shouldRetry c error attempt =
     (if int attempt \<ge> maxRetries (retryOptions c) then False
      else if instanceof_VocaFuseError error \<and> \<not> retryable error then False
      else if instanceof_class NetworkErrorClass error \<and> retryable error then True
      else if name error = ''AbortError'' then True
      else False)"

text \<open>
  \<^verbatim>\<open>calculateRetryDelay(attempt)\<close>. \<open>rnd\<close> is the value \<^verbatim>\<open>Math.random()\<close> returns, a
  number in \<open>[0, 1)\<close>; the literal \<^verbatim>\<open>0.1\<close> is the double nearest to one tenth. The loop
  calls the method with \<open>attempt \<ge> 1\<close>. \<open>backoffDelay\<close> is its constant \<^verbatim>\<open>delay\<close>.
\<close>

definition backoffDelay :: "(real \<Rightarrow> jsnum) \<Rightarrow> RetryOptions \<Rightarrow> nat \<Rightarrow> jsnum" where
  "backoffDelay fl ro attempt =
     js_mul fl (baseDelay ro) (Math_pow fl (backoffFactor ro) (attempt - 1))"

definition calculateRetryDelay :: "(real \<Rightarrow> jsnum) \<Rightarrow> RetryOptions \<Rightarrow> real \<Rightarrow> nat \<Rightarrow> jsnum" where
  "calculateRetryDelay fl ro rnd attempt =
     (let delay = backoffDelay fl ro attempt;
          jitter = js_mul fl (js_mul fl (Fin rnd) (fl (1 / 10))) delay
      in Math_min (js_add fl delay jitter) (maxDelay ro))"

text \<open>
  The loop of \<^verbatim>\<open>request\<close>. \<open>fetches n\<close> is what \<^verbatim>\<open>fetch\<close> settles with at attempt \<open>n\<close>,
  \<open>rnd n\<close> the random number drawn after it, and \<open>fl\<close> the rounding of the platform's
  arithmetic. The result holds what the loop leaves (the value returned, or
  \<^verbatim>\<open>lastError\<close>), the number of attempts made, and the delays slept.
\<close>

function request_loop ::
  "(real \<Rightarrow> jsnum) \<Rightarrow> HttpClient \<Rightarrow> string \<Rightarrow> (nat \<Rightarrow> fetch_outcome) \<Rightarrow> (nat \<Rightarrow> real) \<Rightarrow> int \<Rightarrow> nat
   \<Rightarrow> jserror option \<Rightarrow> jsnum list \<Rightarrow> (jserror option + jsval) \<times> nat \<times> jsnum list" where
  "request_loop fl c fullUrl fetches rnd maxAttempts attempt lastError slept =
     (if int attempt \<le> maxAttempts then
        (case (case executeRequest fullUrl (fetches attempt) of
                 Inl e \<Rightarrow> Inl e
               | Inr response \<Rightarrow> processResponse response) of
           Inr v \<Rightarrow> (Inr v, attempt, slept)
         | Inl error \<Rightarrow>
             if int attempt = maxAttempts \<or> \<not> shouldRetry c error attempt
             then (Inl (Some error), attempt, slept)
             else request_loop fl c fullUrl fetches rnd maxAttempts (Suc attempt) (Some error)
                    (slept @ [calculateRetryDelay fl (retryOptions c) (rnd attempt) attempt]))
      else (Inl lastError, attempt - 1, slept))"
  by pat_completeness auto
termination
  by (relation "measure (\<lambda>(fl, c, u, f, r, maxAttempts, attempt, l, s). nat (maxAttempts + 1 - int attempt))")
     auto

declare request_loop.simps [simp del]

text \<open>
  \<^verbatim>\<open>request(url, options)\<close>, with \<open>retries\<close> and \<open>method\<close> the fields of the options that
  the method reads. The promise settles with the value, or rejects with the wrapped last
  error.
\<close>

definition request ::
  "(real \<Rightarrow> jsnum) \<Rightarrow> HttpClient \<Rightarrow> string \<Rightarrow> int option \<Rightarrow> string option
   \<Rightarrow> (nat \<Rightarrow> fetch_outcome) \<Rightarrow> (nat \<Rightarrow> real) \<Rightarrow> (jserror + jsval) \<times> nat \<times> jsnum list" where
  "request fl c url retries method fetches rnd =
     (let fullUrl = buildUrl c url;
          maxAttempts = (case retries of None \<Rightarrow> maxRetries (retryOptions c) | Some n \<Rightarrow> n) + 1
      in case request_loop fl c fullUrl fetches rnd maxAttempts 1 None [] of
           (Inr v, made, slept) \<Rightarrow> (Inr v, made, slept)
         | (Inl lastError, made, slept) \<Rightarrow>
             (Inl (wrapUnknownError (case lastError of None \<Rightarrow> JUndefined | Some e \<Rightarrow> JErr e)
                     (Some [(''url'', JStr fullUrl),
                            (''method'', JStr (case method of None \<Rightarrow> ''GET''
                                               | Some m \<Rightarrow> if m = [] then ''GET'' else m)),
                            (''attempts'', JNum (real_of_int maxAttempts))])),
              made, slept))"

section \<open>Token management (token.ts)\<close>

text \<open>
  The body the token endpoint answers with, read through the interface \<^verbatim>\<open>TokenResponse\<close>;
  a field the server left out is \<open>None\<close>.
\<close>

record TokenDataIn =
  id_token :: "string option"
  token_type :: "string option"
  expires_in :: "real option"
  tenant_id :: "string option"
  scopes :: "string list option"

record TokenResponse =
  success :: bool
  data :: "TokenDataIn option"

record TokenData =
  t_jwt_token :: string
  t_token_type :: string
  t_expires_in :: real
  t_tenant_id :: string
  t_scopes :: "string list"

record CachedToken =
  c_data :: TokenData
  expiresAt :: real
  fetchedAt :: real

text \<open>
  The fields of \<^verbatim>\<open>TokenManager\<close>. \<open>refreshPromise\<close> holds the number of the request the
  pending promise waits for. \<open>fetched\<close> is not a field of the class: it counts the calls
  of \<^verbatim>\<open>fetch(tokenEndpoint, ...)\<close> made so far, the requests the token endpoint receives.
\<close>

record TokenManager =
  tokenEndpoint :: string
  refreshBuffer :: real
  cachedToken :: "CachedToken option"
  actualJwtToken :: "string option"
  refreshPromise :: "nat option"
  fetched :: nat

text \<open>
  The constructor; its arguments are the fields of the configuration object, and the error
  it throws for a missing endpoint carries that object as given.
\<close>

definition new_TokenManager :: "string \<Rightarrow> real option \<Rightarrow> int option \<Rightarrow> jserror + TokenManager" where
  "new_TokenManager endpoint buffer retries =
     (if endpoint = [] then
        Inl (new_VocaFuseError ConfigurationErrorClass ''ConfigurationError''
               \<lparr>d_code = INVALID_CONFIG, d_message = ''Token endpoint is required'',
                d_originalError = None,
                d_context = Some [(''config'',
                  JObj ([(''tokenEndpoint'', JStr endpoint)]
                        @ (case buffer of None \<Rightarrow> [] | Some b \<Rightarrow> [(''refreshBuffer'', JNum b)])
                        @ (case retries of None \<Rightarrow> []
                           | Some n \<Rightarrow> [(''maxRetries'', JNum (real_of_int n))])))],
                d_retryable = Some False,
                d_userMessage = Some ''SDK configuration error. Please contact support.''\<rparr>)
      else Inr \<lparr>tokenEndpoint = endpoint,
                refreshBuffer = (case buffer of None \<Rightarrow> 300 | Some b \<Rightarrow> b),
                cachedToken = None, actualJwtToken = None, refreshPromise = None, fetched = 0\<rparr>)"

definition isTokenValid :: "real \<Rightarrow> TokenManager \<Rightarrow> bool" where
  "isTokenValid now tm =
     (case cachedToken tm of
        None \<Rightarrow> False
      | Some ct \<Rightarrow> expiresAt ct > now + refreshBuffer tm * 1000)"

text \<open>
  An asynchronous method runs up to its first \<^verbatim>\<open>await\<close> inside the call and continues
  when the awaited promise settles. \<open>fetchTokenData_call\<close> is the first half of
  \<^verbatim>\<open>fetchTokenData\<close>: it reaches \<^verbatim>\<open>await fetch(...)\<close> at once, so the request is sent
  during the call; the result is the number of that request.
\<close>

definition fetchTokenData_call :: "TokenManager \<Rightarrow> nat \<times> TokenManager" where
  "fetchTokenData_call tm = (Suc (fetched tm), tm\<lparr>fetched := Suc (fetched tm)\<rparr>)"

text \<open>What the request settles with: \<^verbatim>\<open>fetch\<close> rejects, or a status line and the parsed body.\<close>

datatype token_fetch =
    TokenFetchRejects jserror
  | TokenHttp nat string "jserror + TokenResponse"

text \<open>The second half of \<^verbatim>\<open>fetchTokenData\<close>, run when the request settles at time \<open>now\<close>.\<close>

definition fetchTokenData_settle :: "real \<Rightarrow> token_fetch \<Rightarrow> TokenManager \<Rightarrow> jserror + TokenManager" where
  "fetchTokenData_settle now f tm =
     (let failed = (\<lambda>e. if instanceof_class AuthenticationErrorClass e then Inl e
                         else Inl (AuthenticationError ''Failed to fetch token from endpoint'' (Some e)
                                     (Some [(''endpoint'', JStr (tokenEndpoint tm))])))
      in case f of
        TokenFetchRejects e \<Rightarrow> failed e
      | TokenHttp st txt body \<Rightarrow>
          if \<not> (200 \<le> st \<and> st \<le> 299)
          then Inl (AuthenticationError (''HTTP '' @ string_of_nat st @ '': '' @ txt) None None)
          else (case body of
                  Inl e \<Rightarrow> failed e
                | Inr tokenData \<Rightarrow>
                    (case data tokenData of
                       Some d \<Rightarrow>
                         (case id_token d of
                            Some idToken \<Rightarrow>
                              if success tokenData \<and> idToken \<noteq> [] then
                                (let expires = (case expires_in d of None \<Rightarrow> 3600
                                                | Some x \<Rightarrow> if x = 0 then 3600 else x)
                                 in Inr (tm\<lparr>actualJwtToken := Some idToken,
                                            cachedToken := Some
                                              \<lparr>c_data =
                                                 \<lparr>t_jwt_token = idToken,
                                                  t_token_type = (case token_type d of None \<Rightarrow> ''Bearer''
                                                                  | Some t \<Rightarrow> if t = [] then ''Bearer'' else t),
                                                  t_expires_in = expires,
                                                  t_tenant_id = (case tenant_id d of None \<Rightarrow> [] | Some t \<Rightarrow> t),
                                                  t_scopes = (case scopes d of None \<Rightarrow> [''voice-api.upload'']
                                                              | Some sc \<Rightarrow> sc)\<rparr>,
                                               expiresAt = now + expires * 1000,
                                               fetchedAt = now\<rparr>\<rparr>))
                              else Inl (AuthenticationError ''No authentication token received from server'' None None)
                          | None \<Rightarrow> Inl (AuthenticationError ''No authentication token received from server'' None None))
                     | None \<Rightarrow> Inl (AuthenticationError ''No authentication token received from server'' None None))))"

text \<open>
  A call that has returned its value, or one suspended until the request of the given
  number settles.
\<close>

datatype 'a suspended = Returned 'a | Awaiting nat

text \<open>
  \<^verbatim>\<open>getToken()\<close>, first half: the cached token when it is valid, else
  \<^verbatim>\<open>fetchNewToken()\<close>, which calls \<^verbatim>\<open>fetchTokenData()\<close> directly.
\<close>

definition getToken_call :: "real \<Rightarrow> TokenManager \<Rightarrow> string suspended \<times> TokenManager" where
  "getToken_call now tm =
     (case actualJwtToken tm of
        Some tok \<Rightarrow>
          if tok \<noteq> [] \<and> cachedToken tm \<noteq> None \<and> isTokenValid now tm then (Returned tok, tm)
          else (case fetchTokenData_call tm of (n, tm') \<Rightarrow> (Awaiting n, tm'))
      | None \<Rightarrow> (case fetchTokenData_call tm of (n, tm') \<Rightarrow> (Awaiting n, tm')))"

text \<open>
  \<^verbatim>\<open>fetchNewToken\<close>, second half: \<^verbatim>\<open>return this.actualJwtToken || ''\<close>. It runs as a step
  of its own once the promise of \<^verbatim>\<open>fetchTokenData\<close> has resolved, and reads the token
  stored at that moment; when that promise rejects, its error is passed on.
\<close>

definition fetchNewToken_resume :: "TokenManager \<Rightarrow> string" where
  "fetchNewToken_resume tm = (case actualJwtToken tm of None \<Rightarrow> [] | Some t \<Rightarrow> t)"

text \<open>
  \<^verbatim>\<open>refreshToken()\<close>, first half: a pending refresh is awaited, otherwise a new request
  is sent and remembered in \<open>refreshPromise\<close>.
\<close>

definition refreshToken_call :: "TokenManager \<Rightarrow> nat \<times> TokenManager" where
  "refreshToken_call tm =
     (case refreshPromise tm of
        Some p \<Rightarrow> (p, tm)
      | None \<Rightarrow> (case fetchTokenData_call tm of (n, tm') \<Rightarrow> (n, tm'\<lparr>refreshPromise := Some n\<rparr>)))"

text \<open>
  \<^verbatim>\<open>refreshToken()\<close>, second half, for the call that sent the request. It runs as a step
  of its own once the awaited promise has settled (\<open>rejected\<close>: with which error, if any):
  it returns the token stored at that moment, and the \<^verbatim>\<open>finally\<close> block clears
  \<open>refreshPromise\<close> on both paths.
\<close>

definition refreshToken_resume :: "jserror option \<Rightarrow> TokenManager \<Rightarrow> (jserror + string) \<times> TokenManager" where
  "refreshToken_resume rejected tm =
     (case rejected of
        Some e \<Rightarrow> (Inl e, tm\<lparr>refreshPromise := None\<rparr>)
      | None \<Rightarrow> (Inr (case actualJwtToken tm of None \<Rightarrow> [] | Some t \<Rightarrow> t),
                 tm\<lparr>refreshPromise := None\<rparr>))"

definition clearToken :: "TokenManager \<Rightarrow> TokenManager" where
  "clearToken tm = tm\<lparr>cachedToken := None, actualJwtToken := None, refreshPromise := None\<rparr>"

text \<open>\<open>n\<close> calls of \<^verbatim>\<open>getToken()\<close>, respectively \<^verbatim>\<open>refreshToken()\<close>, made before any request settles.\<close>

fun getToken_calls :: "nat \<Rightarrow> real \<Rightarrow> TokenManager \<Rightarrow> string suspended list \<times> TokenManager" where
  "getToken_calls 0 now tm = ([], tm)"
| "getToken_calls (Suc n) now tm =
     (case getToken_call now tm of
        (r, tm') \<Rightarrow> (case getToken_calls n now tm' of (rs, tm'') \<Rightarrow> (r # rs, tm'')))"

fun refreshToken_calls :: "nat \<Rightarrow> TokenManager \<Rightarrow> nat list \<times> TokenManager" where
  "refreshToken_calls 0 tm = ([], tm)"
| "refreshToken_calls (Suc n) tm =
     (case refreshToken_call tm of
        (r, tm') \<Rightarrow> (case refreshToken_calls n tm' of (rs, tm'') \<Rightarrow> (r # rs, tm'')))"

subsection \<open>JWT helpers\<close>

text \<open>\<^verbatim>\<open>token.split('.')\<close>: one more segment than there are separators.\<close>

fun split :: "string \<Rightarrow> char \<Rightarrow> string list" where
  "split [] sep = [[]]"
| "split (c # cs) sep =
     (if c = sep then [] # split cs sep
      else (case split cs sep of [] \<Rightarrow> [[c]] | p # ps \<Rightarrow> (c # p) # ps))"

text \<open>
  \<^verbatim>\<open>!v\<close> is the negation of truthiness. Reading a property throws a \<^verbatim>\<open>TypeError\<close> on
  \<^verbatim>\<open>null\<close> and \<^verbatim>\<open>undefined\<close>; on any other value it yields the property, or \<^verbatim>\<open>undefined\<close>
  when the value has none of that name.
\<close>

fun truthy :: "jsval \<Rightarrow> bool" where
  "truthy JUndefined = False"
| "truthy JNull = False"
| "truthy (JBool b) = b"
| "truthy (JNum x) = (x \<noteq> 0)"
| "truthy (JStr s) = (s \<noteq> [])"
| "truthy _ = True"

fun get_prop :: "jsval \<Rightarrow> string \<Rightarrow> jserror + jsval" where
  "get_prop (JObj kvs) k = Inr (case map_of kvs k of None \<Rightarrow> JUndefined | Some v \<Rightarrow> v)"
| "get_prop JNull k = Inl (Error ''TypeError'' ''Cannot read properties of null'')"
| "get_prop JUndefined k = Inl (Error ''TypeError'' ''Cannot read properties of undefined'')"
| "get_prop _ k = Inr JUndefined"

fun typeof_number :: "jsval \<Rightarrow> bool" where
  "typeof_number (JNum _) = True"
| "typeof_number _ = False"

text \<open>
  \<^verbatim>\<open>decodeJwtPayload(token)\<close>. \<open>atob\<close> and \<open>parse\<close> are the platform's \<^verbatim>\<open>atob\<close> and
  \<^verbatim>\<open>JSON.parse\<close>, which throw on input they reject (\<open>Inl\<close>). \<open>decodeJwtPayload_try\<close> is the
  body of the \<^verbatim>\<open>try\<close> block; the \<^verbatim>\<open>catch\<close> turns whatever it throws into \<^verbatim>\<open>null\<close>.
\<close>

definition decodeJwtPayload_try ::
  "(string \<Rightarrow> jserror + string) \<Rightarrow> (string \<Rightarrow> jserror + jsval) \<Rightarrow> string \<Rightarrow> jserror + jsval" where
  "decodeJwtPayload_try atob parse token =
     (let parts = split token CHR ''.'' in
      if length parts \<noteq> 3 then Inr JNull
      else let payload = parts ! 1;
               paddedPayload = payload @ replicate ((4 - length payload mod 4) mod 4) CHR ''=''
           in case atob paddedPayload of
                Inl e \<Rightarrow> Inl e
              | Inr decoded \<Rightarrow> parse decoded)"

definition decodeJwtPayload ::
  "(string \<Rightarrow> jserror + string) \<Rightarrow> (string \<Rightarrow> jserror + jsval) \<Rightarrow> string \<Rightarrow> jserror + jsval" where
  "decodeJwtPayload atob parse token =
     (case decodeJwtPayload_try atob parse token of
        Inl e \<Rightarrow> Inr JNull
      | Inr v \<Rightarrow> Inr v)"

text \<open>\<^verbatim>\<open>isJwtExpired(token)\<close>, at time \<open>now\<close> (milliseconds).\<close>

definition isJwtExpired ::
  "(string \<Rightarrow> jserror + string) \<Rightarrow> (string \<Rightarrow> jserror + jsval) \<Rightarrow> real \<Rightarrow> string \<Rightarrow> jserror + bool" where
  "isJwtExpired atob parse now token =
     (case decodeJwtPayload atob parse token of
        Inl e \<Rightarrow> Inl e
      | Inr payload \<Rightarrow>
          if \<not> truthy payload then Inr True
          else (case get_prop payload ''exp'' of
                  Inl e \<Rightarrow> Inl e
                | Inr v \<Rightarrow>
                    if \<not> typeof_number v then Inr True
                    else (case v of
                            JNum expiry \<Rightarrow> Inr (expiry \<le> of_int \<lfloor>now / 1000\<rfloor>)
                          | _ \<Rightarrow> Inr True)))"

section \<open>The audio recorder (recorder.ts)\<close>

text \<open>
  The platform's \<^verbatim>\<open>MediaRecorder.state\<close> is one of the strings \<^verbatim>\<open>"inactive"\<close>,
  \<^verbatim>\<open>"recording"\<close> and \<^verbatim>\<open>"paused"\<close> (the \<^verbatim>\<open>RecordingState\<close> of the MediaStream Recording
  interface).
\<close>

datatype RecordingState = Inactive | Recording | Paused

fun RecordingState_string :: "RecordingState \<Rightarrow> string" where
  "RecordingState_string Inactive = ''inactive''"
| "RecordingState_string Recording = ''recording''"
| "RecordingState_string Paused = ''paused''"

text \<open>
  The source's \<^verbatim>\<open>enum RecorderState\<close>, by the values it declares:
  \<^verbatim>\<open>INACTIVE = 'inactive', RECORDING = 'voicenote', PAUSED = 'paused'\<close>.
\<close>

definition INACTIVE :: string where "INACTIVE = ''inactive''"
definition RECORDING :: string where "RECORDING = ''voicenote''"
definition PAUSED :: string where "PAUSED = ''paused''"

text \<open>
  What the recorder does to the outside, in order: the calls on the platform's recorder
  and on the stream's track, the progress callback, and an error thrown inside a promise
  handler that nothing awaits.
\<close>

datatype recorder_event =
    MediaRecorder_start | MediaRecorder_pause | MediaRecorder_resume | MediaRecorder_stop
  | Track_stop | OnProgress real | UnhandledRejection jserror

text \<open>
  The fields of \<^verbatim>\<open>AudioRecorder\<close>. \<open>mediaRecorder\<close> is \<open>None\<close> for \<^verbatim>\<open>null\<close> and else the
  state of the platform object; \<open>mediaStream\<close> and \<open>progressTimer\<close> say whether a stream
  and an interval timer are held; a chunk is its bytes; \<open>events\<close> is the trace.
\<close>

record AudioRecorder =
  mediaRecorder :: "RecordingState option"
  mediaStream :: bool
  chunks :: "string list"
  startTime :: real
  pausedTime :: real
  progressTimer :: bool
  maxDuration :: real
  supportedMimeType :: string
  events :: "recorder_event list"

record VoicenoteResult =
  blob :: string
  mimeType :: string
  duration :: real
  size' :: nat
  format :: string

definition detectSupportedMimeType :: "(string \<Rightarrow> bool) \<Rightarrow> string" where
  "detectSupportedMimeType isTypeSupported =
     (case find isTypeSupported
             [''audio/webm;codecs=opus'', ''audio/ogg;codecs=opus'', ''audio/mp4;codecs=mp4a'',
              ''audio/webm'', ''audio/mp4''] of
        None \<Rightarrow> [] | Some f \<Rightarrow> f)"

definition new_AudioRecorder :: "real option \<Rightarrow> (string \<Rightarrow> bool) \<Rightarrow> jserror + AudioRecorder" where
  "new_AudioRecorder cfgMaxDuration isTypeSupported =
     (if detectSupportedMimeType isTypeSupported = [] then
        Inl (VoicenoteError RECORDING_NOT_SUPPORTED
               ''MediaRecorder is not supported in this browser or no compatible audio formats found''
               None None)
      else Inr \<lparr>mediaRecorder = None, mediaStream = False, chunks = [], startTime = 0, pausedTime = 0,
                progressTimer = False,
                maxDuration = (case cfgMaxDuration of None \<Rightarrow> 60 | Some d \<Rightarrow> d),
                supportedMimeType = detectSupportedMimeType isTypeSupported, events = []\<rparr>)"

text \<open>The getter \<^verbatim>\<open>state\<close>: the platform's string, cast to \<^verbatim>\<open>RecorderState\<close> unchanged.\<close>

definition state :: "AudioRecorder \<Rightarrow> string" where
  "state r = (case mediaRecorder r of None \<Rightarrow> INACTIVE | Some st \<Rightarrow> RecordingState_string st)"

definition currentDuration :: "real \<Rightarrow> AudioRecorder \<Rightarrow> real" where
  "currentDuration now r =
     (if state r = INACTIVE then 0
      else if state r = PAUSED then pausedTime r
      else (now - startTime r) / 1000)"

definition stopProgressTimer :: "AudioRecorder \<Rightarrow> AudioRecorder" where
  "stopProgressTimer r = r\<lparr>progressTimer := False\<rparr>"

definition startProgressTimer :: "AudioRecorder \<Rightarrow> AudioRecorder" where
  "startProgressTimer r = (stopProgressTimer r)\<lparr>progressTimer := True\<rparr>"

definition cleanup :: "AudioRecorder \<Rightarrow> AudioRecorder" where
  "cleanup r =
     (stopProgressTimer r)
       \<lparr>events := events r @ (if mediaStream r then [Track_stop] else []),
        mediaStream := False, mediaRecorder := None, chunks := [], startTime := 0, pausedTime := 0\<rparr>"

text \<open>
  \<^verbatim>\<open>requestMicrophoneAccess\<close>; \<open>getUserMedia\<close> is \<open>None\<close> when the platform grants a stream
  and else the error it rejects with.
\<close>

definition requestMicrophoneAccess :: "jserror option \<Rightarrow> jserror + unit" where
  "requestMicrophoneAccess getUserMedia =
     (case getUserMedia of
        None \<Rightarrow> Inr ()
      | Some e \<Rightarrow>
          if name e = ''NotAllowedError''
          then Inl (VoicenoteError MICROPHONE_ACCESS_DENIED
                      ''Microphone access denied. Please allow microphone access and try again.''
                      (Some e) None)
          else Inl e)"

text \<open>The \<^verbatim>\<open>catch\<close> block of \<^verbatim>\<open>start\<close>: release everything, then classify.\<close>

definition start_catch :: "jserror \<Rightarrow> AudioRecorder \<Rightarrow> jserror option \<times> AudioRecorder" where
  "start_catch e r =
     (Some (if instanceof_class VoicenoteErrorClass e then e
            else if name e = ''NotAllowedError''
              then VoicenoteError MICROPHONE_ACCESS_DENIED ''Microphone access was denied by the user'' (Some e) None
            else if name e = ''NotFoundError''
              then VoicenoteError RECORDING_NOT_SUPPORTED ''No microphone found on this device'' (Some e) None
            else if name e = ''NotSupportedError''
              then VoicenoteError RECORDING_NOT_SUPPORTED ''MediaRecorder is not supported in this browser'' (Some e) None
            else wrapUnknownError (JErr e) (Some [(''operation'', JStr ''start voicenote'')])),
      cleanup r)"

text \<open>
  \<^verbatim>\<open>start()\<close>, with \<open>now\<close> the clock when \<open>startTime\<close> is set and \<open>recorderFails\<close> the error
  that creating or starting the \<^verbatim>\<open>MediaRecorder\<close> throws, if any. The first component is
  the error the promise rejects with.
\<close>

definition AudioRecorder_start ::
  "real \<Rightarrow> jserror option \<Rightarrow> jserror option \<Rightarrow> AudioRecorder \<Rightarrow> jserror option \<times> AudioRecorder" where
  "AudioRecorder_start now getUserMedia recorderFails r =
     (if state r \<noteq> INACTIVE then
        start_catch (VoicenoteError RECORDING_FAILED
                       (''Cannot start voicenote: current state is '' @ state r) None None) r
      else case requestMicrophoneAccess getUserMedia of
        Inl e \<Rightarrow> start_catch e r
      | Inr _ \<Rightarrow>
          (case recorderFails of
             Some e \<Rightarrow> start_catch e (r\<lparr>mediaStream := True\<rparr>)
           | None \<Rightarrow>
               (None, startProgressTimer
                        (r\<lparr>mediaStream := True, mediaRecorder := Some Recording, chunks := [],
                           startTime := now, pausedTime := 0,
                           events := events r @ [MediaRecorder_start]\<rparr>))))"

text \<open>The listener for \<^verbatim>\<open>dataavailable\<close>.\<close>

definition dataavailable :: "string \<Rightarrow> AudioRecorder \<Rightarrow> AudioRecorder" where
  "dataavailable chunk r = (if length chunk > 0 then r\<lparr>chunks := chunks r @ [chunk]\<rparr> else r)"

text \<open>
  \<^verbatim>\<open>pause()\<close> and \<^verbatim>\<open>resume()\<close>: a guard on the state, then the statements behind it
  (\<open>pause_body\<close>, \<open>resume_body\<close>).
\<close>

definition pause_body :: "real \<Rightarrow> AudioRecorder \<Rightarrow> AudioRecorder" where
  "pause_body now r =
     stopProgressTimer
       (r\<lparr>mediaRecorder := Some Paused, events := events r @ [MediaRecorder_pause],
          pausedTime := (now - startTime r) / 1000\<rparr>)"

definition AudioRecorder_pause :: "real \<Rightarrow> AudioRecorder \<Rightarrow> jserror + AudioRecorder" where
  "AudioRecorder_pause now r =
     (if state r \<noteq> RECORDING then
        Inl (VoicenoteError RECORDING_FAILED
               (''Cannot pause voicenote: current state is '' @ state r) None None)
      else Inr (pause_body now r))"

definition resume_body :: "real \<Rightarrow> AudioRecorder \<Rightarrow> AudioRecorder" where
  "resume_body now r =
     startProgressTimer
       (r\<lparr>mediaRecorder := Some Recording, events := events r @ [MediaRecorder_resume],
          startTime := now - pausedTime r * 1000\<rparr>)"

definition AudioRecorder_resume :: "real \<Rightarrow> AudioRecorder \<Rightarrow> jserror + AudioRecorder" where
  "AudioRecorder_resume now r =
     (if state r \<noteq> PAUSED then
        Inl (VoicenoteError RECORDING_FAILED
               (''Cannot resume voicenote: current state is '' @ state r) None None)
      else Inr (resume_body now r))"

text \<open>
  \<^verbatim>\<open>stop()\<close> in two halves. The call rejects when nothing is active; otherwise it asks
  the platform recorder to stop, which makes its state \<^verbatim>\<open>"inactive"\<close> at once, and stops
  the timer. \<open>handleStop\<close> runs on the platform's \<^verbatim>\<open>stop\<close> event; \<open>now\<close> is the clock after
  its wait of 100 ms, when the duration is computed.
\<close>

definition stop_call :: "AudioRecorder \<Rightarrow> jserror + AudioRecorder" where
  "stop_call r =
     (if state r = INACTIVE then
        Inl (VoicenoteError RECORDING_FAILED ''Cannot stop voicenote: no active voicenote'' None None)
      else Inr (stopProgressTimer
                  (r\<lparr>mediaRecorder := Some Inactive, events := events r @ [MediaRecorder_stop]\<rparr>)))"

definition extractFormatFromMimeType :: "string \<Rightarrow> string" where
  "extractFormatFromMimeType m =
     (if includes' m ''webm'' then ''webm''
      else if includes' m ''ogg'' then ''ogg''
      else if includes' m ''mp4'' then ''mp4''
      else ''unknown'')"

definition handleStop :: "real \<Rightarrow> AudioRecorder \<Rightarrow> VoicenoteResult \<times> AudioRecorder" where
  "handleStop now r =
     (\<lparr>blob = concat (chunks r), mimeType = supportedMimeType r,
       duration = (now - startTime r) / 1000,
       size' = length (concat (chunks r)),
       format = extractFormatFromMimeType (supportedMimeType r)\<rparr>,
      cleanup r)"

definition AudioRecorder_cancel :: "AudioRecorder \<Rightarrow> AudioRecorder" where
  "AudioRecorder_cancel r =
     (if state r = INACTIVE then r
      else cleanup (stopProgressTimer
                      (r\<lparr>mediaRecorder := Some Inactive, events := events r @ [MediaRecorder_stop]\<rparr>)))"

text \<open>
  One firing of the interval timer that \<^verbatim>\<open>startProgressTimer\<close> installs, at clock \<open>now\<close>.
  At the limit it calls \<^verbatim>\<open>this.stop()\<close> and attaches a \<^verbatim>\<open>catch\<close> handler to the promise:
  the handler runs only when that promise rejects, and throws its error into a promise
  that nothing reads. The value a successful stop resolves with is dropped. \<open>numStr\<close> is
  the platform's rendering of a number in a template string.
\<close>

definition tick :: "(real \<Rightarrow> string) \<Rightarrow> real \<Rightarrow> AudioRecorder \<Rightarrow> AudioRecorder" where
  "tick numStr now r =
     (if \<not> progressTimer r then r
      else let duration = currentDuration now r in
        if duration \<ge> maxDuration r then
          (case stop_call r of
             Inl e \<Rightarrow>
               r\<lparr>events := events r @
                    [UnhandledRejection
                       (VoicenoteError RECORDING_TOO_LONG
                          (''Voicenote stopped: maximum duration of '' @ numStr (maxDuration r)
                             @ '' seconds exceeded'')
                          (Some e) None)]\<rparr>
           | Inr r' \<Rightarrow> r')
        else r\<lparr>events := events r @ [OnProgress duration]\<rparr>)"

text \<open>The timer firing at each of the given clock values in turn.\<close>

fun ticks :: "(real \<Rightarrow> string) \<Rightarrow> real list \<Rightarrow> AudioRecorder \<Rightarrow> AudioRecorder" where
  "ticks numStr [] r = r"
| "ticks numStr (t # ts) r = ticks numStr ts (tick numStr t r)"

section \<open>The session controller (recorder-controller.ts)\<close>

datatype RecorderState = idle | recording | stopped | uploading | uploaded | error_state

fun RecorderState_string :: "RecorderState \<Rightarrow> string" where
  "RecorderState_string idle = ''idle''"
| "RecorderState_string recording = ''recording''"
| "RecorderState_string stopped = ''stopped''"
| "RecorderState_string uploading = ''uploading''"
| "RecorderState_string uploaded = ''uploaded''"
| "RecorderState_string error_state = ''error''"

text \<open>
  \<^verbatim>\<open>RecorderOptions\<close>: for each optional hook, whether the caller installed it. The calls of
  the hooks are recorded in \<open>hookCalls\<close>, in order.
\<close>

record RecorderOptions =
  autoUpload :: "bool option"
  onStateChange :: bool
  onCancel :: bool

datatype hook_call = StateChange RecorderState | Cancelled

record VoiceRecorder =
  audioRecorder :: AudioRecorder
  c_state :: RecorderState
  c_duration :: real
  recordingResult :: "VoicenoteResult option"
  options :: RecorderOptions
  hookCalls :: "hook_call list"

definition new_VoiceRecorder :: "RecorderOptions \<Rightarrow> AudioRecorder \<Rightarrow> VoiceRecorder" where
  "new_VoiceRecorder opts ar =
     \<lparr>audioRecorder = ar, c_state = idle, c_duration = 0, recordingResult = None,
      options = opts, hookCalls = []\<rparr>"

definition setState :: "RecorderState \<Rightarrow> VoiceRecorder \<Rightarrow> VoiceRecorder" where
  "setState newState vr =
     vr\<lparr>c_state := newState,
        hookCalls := hookCalls vr @ (if onStateChange (options vr) then [StateChange newState] else [])\<rparr>"

definition VoiceRecorder_start ::
  "real \<Rightarrow> jserror option \<Rightarrow> jserror option \<Rightarrow> VoiceRecorder \<Rightarrow> jserror option \<times> VoiceRecorder" where
  "VoiceRecorder_start now getUserMedia recorderFails vr =
     (if c_state vr \<noteq> idle then
        (Some (VoicenoteError RECORDING_FAILED
                 (''Cannot start recording from state: '' @ RecorderState_string (c_state vr)) None None),
         vr)
      else let vr1 = setState recording vr in
        case AudioRecorder_start now getUserMedia recorderFails (audioRecorder vr1) of
          (e, ar) \<Rightarrow> (e, vr1\<lparr>audioRecorder := ar\<rparr>))"

definition VoiceRecorder_cancel :: "VoiceRecorder \<Rightarrow> VoiceRecorder" where
  "VoiceRecorder_cancel vr =
     (let vr1 = vr\<lparr>audioRecorder := AudioRecorder_cancel (audioRecorder vr)\<rparr>;
          vr2 = setState idle vr1
      in vr2\<lparr>c_duration := 0, recordingResult := None,
             hookCalls := hookCalls vr2 @ (if onCancel (options vr2) then [Cancelled] else [])\<rparr>)"

definition VoiceRecorder_pause :: "real \<Rightarrow> VoiceRecorder \<Rightarrow> jserror + VoiceRecorder" where
  "VoiceRecorder_pause now vr =
     (case AudioRecorder_pause now (audioRecorder vr) of
        Inl e \<Rightarrow> Inl e
      | Inr ar \<Rightarrow> Inr (vr\<lparr>audioRecorder := ar\<rparr>))"

definition VoiceRecorder_resume :: "real \<Rightarrow> VoiceRecorder \<Rightarrow> jserror + VoiceRecorder" where
  "VoiceRecorder_resume now vr =
     (case AudioRecorder_resume now (audioRecorder vr) of
        Inl e \<Rightarrow> Inl e
      | Inr ar \<Rightarrow> Inr (vr\<lparr>audioRecorder := ar\<rparr>))"

section \<open>The uploader (upload.ts)\<close>

datatype upload_type = single | multipart

record UploadPart =
  part_number :: nat
  part_presigned_url :: string
  start_byte :: nat
  end_byte :: nat
  content_length :: nat

text \<open>\<^verbatim>\<open>PresignedUrlResponse\<close>; \<open>upload_info\<close> holds the parts of \<^verbatim>\<open>upload_info.parts\<close>.\<close>

record PresignedUrlResponse =
  voicenote_id :: string
  upload_type :: upload_type
  presigned_url :: "string option"
  s3_key :: string
  processing_strategy :: string
  client_processed :: bool
  upload_info :: "UploadPart list option"

record UploadResult =
  r_voicenote_id :: string
  r_upload_type :: upload_type
  r_processing_strategy :: string
  r_client_processed :: bool
  r_s3_key :: string
  file_size :: nat
  duration_seconds :: real
  audio_format :: string

text \<open>\<^verbatim>\<open>UploadConfig\<close>: which callbacks the owner installed.\<close>

record UploadConfig =
  onUploadProgress :: bool
  onProgress :: bool
  onComplete :: bool
  onError :: bool

text \<open>
  The event an \<^verbatim>\<open>XMLHttpRequest\<close> ends with: \<^verbatim>\<open>load\<close> with a status line, \<^verbatim>\<open>error\<close>, or
  \<^verbatim>\<open>timeout\<close>.
\<close>

datatype xhr_outcome = XhrLoad nat string | XhrError | XhrTimeout

text \<open>
  What the uploader does to the outside: the callbacks it invokes and the \<^verbatim>\<open>PUT\<close>
  requests it sends (URL and body). The byte-level progress events of a transfer in
  flight are not part of the trace.
\<close>

datatype upload_event =
  Progress real | Put string string | OnComplete UploadResult | OnError jserror

definition notifyProgress :: "UploadConfig \<Rightarrow> real \<Rightarrow> upload_event list" where
  "notifyProgress cfg percentage =
     (if onUploadProgress cfg then [Progress percentage]
      else if onProgress cfg then [Progress percentage]
      else [])"

text \<open>
  \<^verbatim>\<open>requestPresignedUrl\<close>: \<open>presign\<close> is what \<^verbatim>\<open>tokenManager.getToken()\<close> followed by
  \<^verbatim>\<open>httpClient.request('/upload', ...)\<close> settles with.
\<close>

definition requestPresignedUrl :: "jserror + PresignedUrlResponse \<Rightarrow> jserror + PresignedUrlResponse" where
  "requestPresignedUrl presign =
     (case presign of
        Inl e \<Rightarrow> Inl (UploadError ''Failed to get presigned upload URL'' (Some e) True None)
      | Inr response \<Rightarrow> Inr response)"

definition slice :: "string \<Rightarrow> nat \<Rightarrow> nat \<Rightarrow> string" where
  "slice b start end' = take (end' - start) (drop start b)"

definition uploadSingle ::
  "string \<Rightarrow> PresignedUrlResponse \<Rightarrow> xhr_outcome \<Rightarrow> (jserror + unit) \<times> upload_event list" where
  "uploadSingle b response xhr =
     (case presigned_url response of
        None \<Rightarrow> (Inl (UploadError ''No presigned URL provided for single upload'' None True None), [])
      | Some presignedUrl \<Rightarrow>
          if presignedUrl = [] then
            (Inl (UploadError ''No presigned URL provided for single upload'' None True None), [])
          else
            (case xhr of
               XhrLoad st txt \<Rightarrow>
                 if 200 \<le> st \<and> st < 300 then Inr ()
                 else Inl (UploadError (''Upload failed with status '' @ string_of_nat st @ '': '' @ txt)
                             None True None)
             | XhrError \<Rightarrow> Inl (NetworkError ''Network error during upload'' None True None)
             | XhrTimeout \<Rightarrow> Inl (NetworkError ''Upload timed out'' None True None),
             [Put presignedUrl b]))"

text \<open>How the promise of \<^verbatim>\<open>uploadPart(chunk, url, partIndex, totalParts)\<close> settles.\<close>

definition uploadPart :: "nat \<Rightarrow> xhr_outcome \<Rightarrow> jserror + unit" where
  "uploadPart partIndex xhr =
     (case xhr of
        XhrLoad st txt \<Rightarrow>
          if 200 \<le> st \<and> st < 300 then Inr ()
          else Inl (UploadError (''Part '' @ string_of_nat (partIndex + 1) @ '' upload failed with status ''
                                   @ string_of_nat st @ '': '' @ txt) None True None)
      | XhrError \<Rightarrow>
          Inl (NetworkError (''Network error during part '' @ string_of_nat (partIndex + 1) @ '' upload'')
                 None True None)
      | XhrTimeout \<Rightarrow>
          Inl (NetworkError (''Part '' @ string_of_nat (partIndex + 1) @ '' upload timed out'')
                 None True None))"

text \<open>
  \<^verbatim>\<open>Promise.all\<close> over \<open>n\<close> promises, where \<open>settle i\<close> is how promise \<open>i\<close> settles and
  \<open>order\<close> lists the promises in the order in which they settle: it rejects with the
  first rejection, resolves once all have resolved, and is pending (\<open>None\<close>) until then.
\<close>

definition promise_all :: "nat \<Rightarrow> (nat \<Rightarrow> jserror + unit) \<Rightarrow> nat list \<Rightarrow> (jserror + unit) option" where
  "promise_all n settle order =
     (case find (\<lambda>i. i < n \<and> isl (settle i)) order of
        Some i \<Rightarrow> Some (settle i)
      | None \<Rightarrow> if list_all (\<lambda>i. i \<in> set order) [0..<n] then Some (Inr ()) else None)"

text \<open>
  \<^verbatim>\<open>uploadMultipart\<close>: every part is sent at once, its bytes cut from \<open>start_byte\<close> to
  \<open>end_byte\<close> inclusive; \<open>xhr i\<close> is how the transfer of the part at index \<open>i\<close> ends.
\<close>

definition uploadMultipart ::
  "string \<Rightarrow> PresignedUrlResponse \<Rightarrow> (nat \<Rightarrow> xhr_outcome) \<Rightarrow> nat list
   \<Rightarrow> (jserror + unit) option \<times> upload_event list" where
  "uploadMultipart b response xhr order =
     (case upload_info response of
        None \<Rightarrow> (Some (Inl (UploadError ''No multipart upload info provided'' None True None)), [])
      | Some parts \<Rightarrow>
          (promise_all (length parts) (\<lambda>index. uploadPart index (xhr index)) order,
           map (\<lambda>part. Put (part_presigned_url part) (slice b (start_byte part) (end_byte part + 1))) parts))"

text \<open>The \<^verbatim>\<open>catch\<close> block of \<^verbatim>\<open>upload\<close>.\<close>

definition upload_catch ::
  "UploadConfig \<Rightarrow> jserror \<Rightarrow> upload_event list \<Rightarrow> (jserror + UploadResult) option \<times> upload_event list" where
  "upload_catch cfg e evs =
     (let uploadError = (if instanceof_class UploadErrorClass e then e
                         else wrapUnknownError (JErr e) (Some [(''operation'', JStr ''upload voicenote'')]))
      in (Some (Inl uploadError), evs @ (if onError cfg then [OnError uploadError] else [])))"

text \<open>
  \<^verbatim>\<open>upload(voicenote)\<close>. The result is \<open>None\<close> while the promise is pending, \<open>Inl\<close> when
  it rejects and \<open>Inr\<close> when it resolves.
\<close>

definition upload ::
  "UploadConfig \<Rightarrow> VoicenoteResult \<Rightarrow> jserror + PresignedUrlResponse \<Rightarrow> xhr_outcome
   \<Rightarrow> (nat \<Rightarrow> xhr_outcome) \<Rightarrow> nat list \<Rightarrow> (jserror + UploadResult) option \<times> upload_event list" where
  "upload cfg voicenote presign singleXhr xhr order =
     (let evs0 = notifyProgress cfg 0 in
      case requestPresignedUrl presign of
        Inl e \<Rightarrow> upload_catch cfg e evs0
      | Inr presignedResponse \<Rightarrow>
          (let evs1 = evs0 @ notifyProgress cfg 10;
               (transfer, puts) =
                 (if upload_type presignedResponse = single
                  then (case uploadSingle (blob voicenote) presignedResponse singleXhr of
                          (res, ps) \<Rightarrow> (Some res, ps))
                  else uploadMultipart (blob voicenote) presignedResponse xhr order)
           in case transfer of
                None \<Rightarrow> (None, evs1 @ puts)
              | Some (Inl e) \<Rightarrow> upload_catch cfg e (evs1 @ puts)
              | Some (Inr _) \<Rightarrow>
                  (let result = \<lparr>r_voicenote_id = voicenote_id presignedResponse,
                                 r_upload_type = upload_type presignedResponse,
                                 r_processing_strategy = processing_strategy presignedResponse,
                                 r_client_processed = client_processed presignedResponse,
                                 r_s3_key = s3_key presignedResponse,
                                 file_size = size' voicenote,
                                 duration_seconds = duration voicenote,
                                 audio_format = format voicenote\<rparr>
                   in (Some (Inr result),
                       evs1 @ puts @ notifyProgress cfg 100
                         @ (if onComplete cfg then [OnComplete result] else [])))))"

section \<open>Example inputs\<close>

text \<open>A token manager as the constructor leaves it, with the default refresh buffer.\<close>

definition example_tokenManager :: TokenManager where
  "example_tokenManager =
     \<lparr>tokenEndpoint = ''/api/token'', refreshBuffer = 300, cachedToken = None,
      actualJwtToken = None, refreshPromise = None, fetched = 0\<rparr>"

text \<open>The client the SDK builds: default timeout and retry options.\<close>

definition example_client :: HttpClient where
  "example_client = new_HttpClient (Some ''https://api.vocafuse.com'') None None"

definition AbortError :: jserror where
  "AbortError = Error ''AbortError'' ''The operation was aborted.''"

text \<open>An audio recorder as the constructor leaves it, for a given maximum duration.\<close>

definition example_recorder :: "real \<Rightarrow> AudioRecorder" where
  "example_recorder d =
     \<lparr>mediaRecorder = None, mediaStream = False, chunks = [], startTime = 0, pausedTime = 0,
      progressTimer = False, maxDuration = d, supportedMimeType = ''audio/webm;codecs=opus'',
      events = []\<rparr>"

text \<open>A successful JSON response whose body is \<^verbatim>\<open>{"foo":1}\<close>.\<close>

definition example_response :: Response where
  "example_response =
     \<lparr>status = 200, statusText = ''OK'',
      headers = [(''content-type'', ''application/json; charset=utf-8'')],
      json = Inr (JObj [(''foo'', JNum 1)]), text' = Inr ''{\"foo\":1}''\<rparr>"

text \<open>A recording of six bytes and a plan of three parts of two bytes each.\<close>

definition example_voicenote :: VoicenoteResult where
  "example_voicenote =
     \<lparr>blob = ''abcdef'', mimeType = ''audio/webm;codecs=opus'', duration = 2.1, size' = 6,
      format = ''webm''\<rparr>"

definition example_parts :: "UploadPart list" where
  "example_parts =
     [\<lparr>part_number = 1, part_presigned_url = ''https://s3/p1'', start_byte = 0, end_byte = 1, content_length = 2\<rparr>,
      \<lparr>part_number = 2, part_presigned_url = ''https://s3/p2'', start_byte = 2, end_byte = 3, content_length = 2\<rparr>,
      \<lparr>part_number = 3, part_presigned_url = ''https://s3/p3'', start_byte = 4, end_byte = 5, content_length = 2\<rparr>]"

definition example_plan :: PresignedUrlResponse where
  "example_plan =
     \<lparr>voicenote_id = ''vn_1'', upload_type = multipart, presigned_url = None, s3_key = ''k'',
      processing_strategy = ''server'', client_processed = False,
      upload_info = Some example_parts\<rparr>"

definition example_config :: UploadConfig where
  "example_config = \<lparr>onUploadProgress = True, onProgress = False, onComplete = True, onError = True\<rparr>"

text \<open>
  How the three transfers end: all with \<^verbatim>\<open>200 OK\<close>, except that the second part (index 1)
  is answered with HTTP 500, respectively fails in the network.
\<close>

definition part2_http500 :: "nat \<Rightarrow> xhr_outcome" where
  "part2_http500 i = (if i = 1 then XhrLoad 500 ''Internal Server Error'' else XhrLoad 200 ''OK'')"

definition part2_network_error :: "nat \<Rightarrow> xhr_outcome" where
  "part2_network_error i = (if i = 1 then XhrError else XhrLoad 200 ''OK'')"

text \<open>
  The second part is answered with HTTP 500 and the third fails in the network.
\<close>

definition part2_http500_part3_network :: "nat \<Rightarrow> xhr_outcome" where
  "part2_http500_part3_network i =
     (if i = 1 then XhrLoad 500 ''Internal Server Error''
      else if i = 2 then XhrError
      else XhrLoad 200 ''OK'')"

text \<open>Retry options with a growth factor below 1, and with one whose square overflows.\<close>

definition shrinking_options :: RetryOptions where
  "shrinking_options =
     \<lparr>maxRetries = 3, baseDelay = Fin 1000, maxDelay = Fin 10000, backoffFactor = Fin (1 / 2)\<rparr>"

definition overflowing_options :: RetryOptions where
  "overflowing_options =
     \<lparr>maxRetries = 3, baseDelay = Fin 1000, maxDelay = Fin 10000, backoffFactor = Fin (2 ^ 700)\<rparr>"

text \<open>
  Stand-ins for \<^verbatim>\<open>atob\<close> and \<^verbatim>\<open>JSON.parse\<close>, right on the inputs the examples use:
  \<^verbatim>\<open>atob("e30=")\<close> is \<^verbatim>\<open>"{}"\<close>, \<^verbatim>\<open>atob("eA==")\<close> is \<^verbatim>\<open>"x"\<close>, and \<^verbatim>\<open>"!"\<close> is not base64.
\<close>

definition example_atob :: "string \<Rightarrow> jserror + string" where
  "example_atob s =
     (if s = ''e30='' then Inr ''{}''
      else if s = ''eA=='' then Inr ''x''
      else Inl (Error ''InvalidCharacterError'' ''The string to be decoded is not correctly encoded.''))"

definition example_parse :: "string \<Rightarrow> jserror + jsval" where
  "example_parse s =
     (if s = ''{}'' then Inr (JObj [])
      else Inl (Error ''SyntaxError'' ''Unexpected token''))"

section \<open>Properties of the error helpers\<close>

lemma instanceof_new_VocaFuseError: "instanceof_VocaFuseError (new_VocaFuseError c nm d)"
  by (simp add: new_VocaFuseError_def instanceof_VocaFuseError_def)

lemma wrapUnknownError_is_VocaFuseError: "instanceof_VocaFuseError (wrapUnknownError v cx)"
  by (cases v) (simp_all add: wrapUnknownError_def instanceof_new_VocaFuseError)

lemma wrapUnknownError_of_VocaFuseError:
  "instanceof_VocaFuseError e \<Longrightarrow> wrapUnknownError (JErr e) cx = e"
  by (simp add: wrapUnknownError_def)

text \<open>
  Claim C9. For every value \<open>v\<close> and context, \<^verbatim>\<open>wrapUnknownError\<close> returns an instance of
  \<^verbatim>\<open>VocaFuseError\<close>; when \<open>v\<close> is already one, it returns \<open>v\<close> itself whatever the context;
  hence wrapping the result again, with any second context, changes nothing.
\<close>

theorem wrapUnknownError_idempotent:
  "instanceof_VocaFuseError (wrapUnknownError v cx)
   \<and> (\<forall>e. v = JErr e \<and> instanceof_VocaFuseError e \<longrightarrow> wrapUnknownError v cx = e)
   \<and> wrapUnknownError (JErr (wrapUnknownError v cx)) cx' = wrapUnknownError v cx"
  using wrapUnknownError_is_VocaFuseError [of v cx]
  by (auto simp: wrapUnknownError_of_VocaFuseError)

theorem wrapUnknownError_idempotent_witness:
  "instanceof_VocaFuseError (NetworkError ''Request timeout'' None False None)
   \<and> wrapUnknownError (JErr (NetworkError ''Request timeout'' None False None))
        (Some [(''operation'', JStr ''getToken'')])
      = NetworkError ''Request timeout'' None False None
   \<and> wrapUnknownError (JErr (wrapUnknownError (JStr ''boom'') None)) (Some [(''attempts'', JNum 4)])
      = wrapUnknownError (JStr ''boom'') None"
  using wrapUnknownError_idempotent
          [of "JErr (NetworkError ''Request timeout'' None False None)"
              "Some [(''operation'', JStr ''getToken'')]"]
        wrapUnknownError_idempotent [of "JStr ''boom''" None "Some [(''attempts'', JNum 4)]"]
  by (simp add: NetworkError_def instanceof_new_VocaFuseError)

section \<open>Retry and backoff in the HTTP client\<close>

subsection \<open>The rounding\<close>

lemma MAX_VALUE_bounds: "1 \<le> MAX_VALUE" "MAX_VALUE < OVERFLOW"
  by (simp_all add: MAX_VALUE_def OVERFLOW_def)

lemma rounding_round_in_range: "rounding round_in_range"
  unfolding rounding_def round_in_range_def
  using MAX_VALUE_bounds by (auto split: if_splits)

lemma rounding_Fin: "rounding Fin"
  by (simp add: rounding_def)

lemma rounding_nonneg:
  assumes "rounding fl" and "0 \<le> x"
  shows "js_le (Fin 0) (fl x)"
  using assms unfolding rounding_def by metis

lemma rounding_between:
  assumes "rounding fl" and "fl a = Fin a'" and "fl b = Fin b'" and "a \<le> x" and "x \<le> b"
  shows "\<exists>y. fl x = Fin y \<and> a' \<le> y \<and> y \<le> b'"
proof -
  have "js_le (Fin a') (fl x)" and "js_le (fl x) (Fin b')"
    using assms unfolding rounding_def by metis+
  then show ?thesis
    by (cases "fl x") simp_all
qed

lemma rounding_unit:
  assumes "rounding fl" and "0 \<le> x" and "x \<le> 1"
  shows "\<exists>y. fl x = Fin y \<and> 0 \<le> y \<and> y \<le> 1"
proof -
  have "fl 0 = Fin 0" and "fl 1 = Fin 1"
    using assms(1) by (simp_all add: rounding_def)
  with assms show ?thesis
    by (intro rounding_between [of fl 0 0 1 1 x]) simp_all
qed

subsection \<open>The cap\<close>

lemma Math_min_cap: "Math_min a b \<noteq> NaN \<Longrightarrow> js_le (Math_min a b) b"
  by (cases a; cases b) (auto simp: Math_min_def)

lemma Math_min_mono:
  "js_le a a' \<Longrightarrow> b \<noteq> NaN \<Longrightarrow> js_le (Math_min a b) (Math_min a' b)"
  by (cases a; cases a'; cases b) (auto simp: Math_min_def)

lemma calculateRetryDelay_capped:
  "calculateRetryDelay fl ro rnd n \<noteq> NaN
     \<Longrightarrow> js_le (calculateRetryDelay fl ro rnd n) (maxDelay ro)"
  unfolding calculateRetryDelay_def Let_def by (rule Math_min_cap)

subsection \<open>No \<^verbatim>\<open>NaN\<close> while the delay before jitter is finite\<close>

text \<open>A product is finite only when both factors are.\<close>

lemma js_mul_Fin:
  assumes "js_mul fl a b = Fin d"
  shows "\<exists>x y. a = Fin x \<and> b = Fin y \<and> fl (x * y) = Fin d"
  using assms by (cases a; cases b) (simp_all split: if_splits)

lemma calculateRetryDelay_finite_delay:
  assumes fl: "rounding fl" and rnd: "0 \<le> rnd" "rnd < 1" and mx: "maxDelay ro \<noteq> NaN"
      and d: "backoffDelay fl ro n = Fin d"
  shows "calculateRetryDelay fl ro rnd n \<noteq> NaN"
proof -
  obtain c where c: "fl (1 / 10) = Fin c" "0 \<le> c" "c \<le> 1"
    using rounding_unit [OF fl, of "1 / 10"] by auto
  have "0 \<le> rnd * c" and "rnd * c \<le> 1"
    using rnd c by (simp_all add: mult_le_one)
  then obtain j where j: "fl (rnd * c) = Fin j"
    using rounding_unit [OF fl, of "rnd * c"] by auto
  have nn: "\<And>x. fl x \<noteq> NaN"
    using fl by (simp add: rounding_def)
  have "js_add fl (Fin d) (fl (j * d)) \<noteq> NaN"
    using nn [of "j * d"] nn by (cases "fl (j * d)") simp_all
  then show ?thesis
    using mx by (simp add: calculateRetryDelay_def Let_def d c j Math_min_def)
qed

subsection \<open>Growth without jitter\<close>

lemma calculateRetryDelay_no_jitter:
  assumes fl: "rounding fl" and d: "backoffDelay fl ro n = Fin d"
  shows "calculateRetryDelay fl ro 0 n = Math_min (Fin d) (maxDelay ro)"
proof -
  obtain c where c: "fl (1 / 10) = Fin c"
    using rounding_unit [OF fl, of "1 / 10"] by auto
  have z: "fl 0 = Fin 0"
    using fl by (simp add: rounding_def)
  have "\<exists>x. fl x = Fin d"
    using js_mul_Fin [of fl "baseDelay ro" "Math_pow fl (backoffFactor ro) (n - 1)" d] d
    by (auto simp: backoffDelay_def)
  then have keep: "fl d = Fin d"
    using fl unfolding rounding_def by metis
  show ?thesis
    by (simp add: calculateRetryDelay_def Let_def d c z keep)
qed

lemma Math_pow_ge_1:
  assumes fl: "rounding fl" and x: "js_le (Fin 1) x"
  shows "js_le (Fin 1) (Math_pow fl x k)"
proof (cases "k = 0")
  case True
  then show ?thesis by (simp add: Math_pow_def)
next
  case False
  show ?thesis
  proof (cases x)
    case (Fin v)
    with x have "1 \<le> v" by simp
    then have "1 \<le> v ^ k"
      by (rule one_le_power)
    then have "js_le (fl 1) (fl (v ^ k))"
      using fl unfolding rounding_def by metis
    moreover have "fl 1 = Fin 1"
      using fl by (simp add: rounding_def)
    ultimately show ?thesis
      using False Fin by (simp add: Math_pow_def)
  qed (use x False in \<open>simp_all add: Math_pow_def\<close>)
qed

lemma Math_pow_mono:
  assumes fl: "rounding fl" and x: "js_le (Fin 1) x" and jk: "j \<le> k"
  shows "js_le (Math_pow fl x j) (Math_pow fl x k)"
proof (cases "j = 0")
  case True
  then show ?thesis
    using Math_pow_ge_1 [OF fl x, of k] by (simp add: Math_pow_def)
next
  case False
  then have k: "k \<noteq> 0"
    using jk by simp
  show ?thesis
  proof (cases x)
    case (Fin v)
    with x have "1 \<le> v" by simp
    with jk have "v ^ j \<le> v ^ k"
      by (rule power_increasing)
    then have "js_le (fl (v ^ j)) (fl (v ^ k))"
      using fl unfolding rounding_def by metis
    then show ?thesis
      using False k Fin by (simp add: Math_pow_def)
  qed (use x False k in \<open>simp_all add: Math_pow_def\<close>)
qed

text \<open>
  While the delay of attempt \<open>n\<close> has not overflowed, neither has the delay of an earlier
  attempt, and it is no larger.
\<close>

lemma backoffDelay_mono:
  assumes fl: "rounding fl" and base: "js_le (Fin 0) (baseDelay ro)"
      and factor: "js_le (Fin 1) (backoffFactor ro)"
      and mn: "m \<le> n" and d: "backoffDelay fl ro n = Fin d"
  shows "\<exists>d'. backoffDelay fl ro m = Fin d' \<and> d' \<le> d"
proof -
  let ?pm = "Math_pow fl (backoffFactor ro) (m - 1)"
  let ?pn = "Math_pow fl (backoffFactor ro) (n - 1)"
  have le: "js_le ?pm ?pn"
    using mn by (intro Math_pow_mono [OF fl factor]) simp
  have one: "js_le (Fin 1) ?pm"
    by (rule Math_pow_ge_1 [OF fl factor])
  from js_mul_Fin [of fl "baseDelay ro" ?pn d] d
  obtain b pn where b: "baseDelay ro = Fin b" and pn: "?pn = Fin pn"
    and dn: "fl (b * pn) = Fin d"
    by (auto simp: backoffDelay_def)
  from base b have b0: "0 \<le> b"
    by simp
  from le one pn obtain pm where pm: "?pm = Fin pm" "1 \<le> pm" "pm \<le> pn"
    by (cases ?pm) simp_all
  have "0 \<le> b * pm" and "b * pm \<le> b * pn"
    using b0 pm by (simp_all add: mult_left_mono)
  then have "js_le (Fin 0) (fl (b * pm))" and "js_le (fl (b * pm)) (Fin d)"
    using fl dn unfolding rounding_def by metis+
  then obtain d' where "fl (b * pm) = Fin d'" and "d' \<le> d"
    by (cases "fl (b * pm)") simp_all
  then show ?thesis
    using pm(1) b by (simp add: backoffDelay_def)
qed

lemma calculateRetryDelay_mono:
  assumes fl: "rounding fl" and base: "js_le (Fin 0) (baseDelay ro)"
      and factor: "js_le (Fin 1) (backoffFactor ro)" and mx: "maxDelay ro \<noteq> NaN"
      and mn: "m \<le> n" and d: "backoffDelay fl ro n = Fin d"
  shows "js_le (calculateRetryDelay fl ro 0 m) (calculateRetryDelay fl ro 0 n)"
proof -
  from backoffDelay_mono [OF fl base factor mn d]
  obtain d' where d': "backoffDelay fl ro m = Fin d'" "d' \<le> d"
    by blast
  show ?thesis
    using d' mx by (simp add: calculateRetryDelay_no_jitter [OF fl] d Math_min_mono)
qed

subsection \<open>The formula in exact arithmetic\<close>

text \<open>
  The attempt number is a natural number here and the loop starts it at 1, so \<open>n - 1\<close>
  below is the exponent \<^verbatim>\<open>attempt - 1\<close> of the source whenever \<open>1 \<le> n\<close>. With \<open>Fin\<close>
  for the rounding no operation rounds or overflows.
\<close>

lemma calculateRetryDelay_exact:
  assumes "baseDelay ro = Fin base" and "backoffFactor ro = Fin factor" and "maxDelay ro = Fin mx"
  shows "calculateRetryDelay Fin ro rnd n
           = Fin (min mx (base * factor ^ (n - 1) * (1 + rnd * (1 / 10))))"
  using assms
  by (simp add: calculateRetryDelay_def backoffDelay_def Math_pow_def Math_min_def Let_def
        algebra_simps min_def)

lemma calculateRetryDelay_defaults:
  "map (calculateRetryDelay round_in_range defaultRetryOptions 0) [1, 2, 3, 4, 5, 6]
     = [Fin 1000, Fin 2000, Fin 4000, Fin 8000, Fin 10000, Fin 10000]"
  by (simp add: calculateRetryDelay_def backoffDelay_def Math_pow_def Math_min_def Let_def
        defaultRetryOptions_def round_in_range_def MAX_VALUE_def OVERFLOW_def)

text \<open>
  Claim C7, as the code has it. For every attempt number \<open>n \<ge> 1\<close>, every value \<open>rnd\<close> of
  \<^verbatim>\<open>Math.random()\<close> and finite retry options, the delay in exact arithmetic is
  \<open>min(maxDelay, baseDelay * backoffFactor^(n-1) * (1 + jitter))\<close> with
  \<open>jitter = rnd * 0.1\<close>. The jitter lies in \<open>[0, 0.1)\<close> when \<open>rnd\<close> lies in \<open>[0, 1)\<close>, and
  it lies in a tenth of an interval exactly when \<open>rnd\<close> lies in the interval, so it is
  uniform when \<open>rnd\<close> is. In the arithmetic of doubles, under any rounding and for retry
  options of any kind: a delay that is a number never exceeds \<open>maxDelay\<close>; it is a number
  whenever \<open>maxDelay\<close> is one and the delay before jitter is finite (it has not overflowed);
  and then, provided that \<open>baseDelay \<ge> 0\<close> and \<open>backoffFactor \<ge> 1\<close>, as the defaults are,
  the delay without jitter is non-decreasing up to that attempt.
\<close>

theorem calculateRetryDelay_backoff:
  "(1 \<le> n \<and> baseDelay ro = Fin base \<and> backoffFactor ro = Fin factor \<and> maxDelay ro = Fin mx \<longrightarrow>
      calculateRetryDelay Fin ro rnd n
        = Fin (min mx (base * factor ^ (n - 1) * (1 + rnd * (1 / 10)))))
   \<and> (0 \<le> rnd \<and> rnd < 1 \<longrightarrow> 0 \<le> rnd * (1 / 10) \<and> rnd * (1 / 10) < 1 / 10)
   \<and> ((a / 10 \<le> rnd * (1 / 10) \<and> rnd * (1 / 10) < b / 10) = (a \<le> rnd \<and> rnd < b))
   \<and> (calculateRetryDelay fl ro rnd n \<noteq> NaN
        \<longrightarrow> js_le (calculateRetryDelay fl ro rnd n) (maxDelay ro))
   \<and> (rounding fl \<and> 0 \<le> rnd \<and> rnd < 1 \<and> maxDelay ro \<noteq> NaN
       \<and> (\<exists>d. backoffDelay fl ro n = Fin d)
        \<longrightarrow> calculateRetryDelay fl ro rnd n \<noteq> NaN)
   \<and> (rounding fl \<and> js_le (Fin 0) (baseDelay ro) \<and> js_le (Fin 1) (backoffFactor ro)
       \<and> maxDelay ro \<noteq> NaN \<and> 1 \<le> m \<and> m \<le> n \<and> (\<exists>d. backoffDelay fl ro n = Fin d)
        \<longrightarrow> js_le (calculateRetryDelay fl ro 0 m) (calculateRetryDelay fl ro 0 n))"
proof (intro conjI impI)
  assume "1 \<le> n \<and> baseDelay ro = Fin base \<and> backoffFactor ro = Fin factor \<and> maxDelay ro = Fin mx"
  then show "calculateRetryDelay Fin ro rnd n
        = Fin (min mx (base * factor ^ (n - 1) * (1 + rnd * (1 / 10))))"
    by (intro calculateRetryDelay_exact) simp_all
next
  assume "0 \<le> rnd \<and> rnd < 1"
  then show "0 \<le> rnd * (1 / 10)" and "rnd * (1 / 10) < 1 / 10"
    by simp_all
next
  show "(a / 10 \<le> rnd * (1 / 10) \<and> rnd * (1 / 10) < b / 10) = (a \<le> rnd \<and> rnd < b)"
    by auto
next
  assume "calculateRetryDelay fl ro rnd n \<noteq> NaN"
  then show "js_le (calculateRetryDelay fl ro rnd n) (maxDelay ro)"
    by (rule calculateRetryDelay_capped)
next
  assume "rounding fl \<and> 0 \<le> rnd \<and> rnd < 1 \<and> maxDelay ro \<noteq> NaN
          \<and> (\<exists>d. backoffDelay fl ro n = Fin d)"
  then show "calculateRetryDelay fl ro rnd n \<noteq> NaN"
    using calculateRetryDelay_finite_delay [of fl rnd ro n] by blast
next
  assume "rounding fl \<and> js_le (Fin 0) (baseDelay ro) \<and> js_le (Fin 1) (backoffFactor ro)
          \<and> maxDelay ro \<noteq> NaN \<and> 1 \<le> m \<and> m \<le> n \<and> (\<exists>d. backoffDelay fl ro n = Fin d)"
  then show "js_le (calculateRetryDelay fl ro 0 m) (calculateRetryDelay fl ro 0 n)"
    using calculateRetryDelay_mono [of fl ro m n] by blast
qed

lemma backoffDelay_default_3: "backoffDelay round_in_range defaultRetryOptions 3 = Fin 4000"
  by (simp add: backoffDelay_def Math_pow_def defaultRetryOptions_def round_in_range_def
        MAX_VALUE_def OVERFLOW_def)

theorem calculateRetryDelay_backoff_witness:
  "(1::nat) \<le> 3 \<and> (0::real) \<le> 1 / 2 \<and> (1 / 2::real) < 1
   \<and> rounding round_in_range
   \<and> baseDelay defaultRetryOptions = Fin 1000 \<and> backoffFactor defaultRetryOptions = Fin 2
   \<and> maxDelay defaultRetryOptions = Fin 10000
   \<and> js_le (Fin 0) (baseDelay defaultRetryOptions) \<and> js_le (Fin 1) (backoffFactor defaultRetryOptions)
   \<and> maxDelay defaultRetryOptions \<noteq> NaN
   \<and> (1::nat) \<le> 2 \<and> (2::nat) \<le> 3
   \<and> backoffDelay round_in_range defaultRetryOptions 3 = Fin 4000
   \<and> calculateRetryDelay Fin defaultRetryOptions (1 / 2) 3 = Fin 4200
   \<and> calculateRetryDelay round_in_range defaultRetryOptions (1 / 2) 3 \<noteq> NaN
   \<and> js_le (calculateRetryDelay round_in_range defaultRetryOptions (1 / 2) 3)
            (maxDelay defaultRetryOptions)
   \<and> js_le (calculateRetryDelay round_in_range defaultRetryOptions 0 2)
            (calculateRetryDelay round_in_range defaultRetryOptions 0 3)"
proof -
  note inst = calculateRetryDelay_backoff
                [where n = 3 and m = 2 and ro = defaultRetryOptions and rnd = "1 / 2"
                   and fl = round_in_range and a = 0 and b = 1
                   and base = 1000 and factor = 2 and mx = 10000]
  have r: "rounding round_in_range"
    by (rule rounding_round_in_range)
  have o1: "baseDelay defaultRetryOptions = Fin 1000"
    and o2: "backoffFactor defaultRetryOptions = Fin 2"
    and o3: "maxDelay defaultRetryOptions = Fin 10000"
    by (simp_all add: defaultRetryOptions_def)
  have b: "js_le (Fin 0) (baseDelay defaultRetryOptions)"
    and f: "js_le (Fin 1) (backoffFactor defaultRetryOptions)"
    and mx: "maxDelay defaultRetryOptions \<noteq> NaN"
    by (simp_all add: defaultRetryOptions_def)
  have d: "backoffDelay round_in_range defaultRetryOptions 3 = Fin 4000"
    by (rule backoffDelay_default_3)
  have n1: "(1::nat) \<le> 3" and n2: "(1::nat) \<le> 2" and n3: "(2::nat) \<le> 3"
    by simp_all
  have q1: "(0::real) \<le> 1 / 2" and q2: "(1 / 2::real) < 1"
    by simp_all
  from inst n1 o1 o2 o3
  have "calculateRetryDelay Fin defaultRetryOptions (1 / 2) 3
          = Fin (min 10000 (1000 * 2 ^ (3 - 1) * (1 + 1 / 2 * (1 / 10))))"
    by blast
  then have c1: "calculateRetryDelay Fin defaultRetryOptions (1 / 2) 3 = Fin 4200"
    by simp
  from inst r q1 q2 mx d
  have c2: "calculateRetryDelay round_in_range defaultRetryOptions (1 / 2) 3 \<noteq> NaN"
    by blast
  from inst c2
  have c3: "js_le (calculateRetryDelay round_in_range defaultRetryOptions (1 / 2) 3)
                  (maxDelay defaultRetryOptions)"
    by blast
  from inst r b f mx n2 n3 d
  have c4: "js_le (calculateRetryDelay round_in_range defaultRetryOptions 0 2)
                  (calculateRetryDelay round_in_range defaultRetryOptions 0 3)"
    by blast
  show ?thesis
    by (intro conjI n1 q1 q2 r o1 o2 o3 b f mx n2 n3 d c1 c2 c3 c4)
qed

text \<open>
  The claim as stated, for every retry configuration, fails twice over. With
  \<open>backoffFactor = 1/2\<close> the delay without jitter falls from 1000 at attempt 1 to 500 at
  attempt 2; every value computed on the way is a double, so no rounding takes part.
  With \<open>backoffFactor = 2^700\<close> the power overflows at attempt 3: the delay before jitter
  is \<^verbatim>\<open>Infinity\<close>, the jitter for \<open>rnd = 0\<close> is \<^verbatim>\<open>0 * Infinity\<close>, and the result is \<^verbatim>\<open>NaN\<close>,
  which is not at most \<open>maxDelay\<close>.
\<close>

theorem calculateRetryDelay_decreasing_counterexample:
  "calculateRetryDelay round_in_range shrinking_options 0 1 = Fin 1000
   \<and> calculateRetryDelay round_in_range shrinking_options 0 2 = Fin 500
   \<and> \<not> js_le (calculateRetryDelay round_in_range shrinking_options 0 1)
              (calculateRetryDelay round_in_range shrinking_options 0 2)
   \<and> calculateRetryDelay round_in_range overflowing_options 0 3 = NaN
   \<and> \<not> js_le (calculateRetryDelay round_in_range overflowing_options 0 3)
              (maxDelay overflowing_options)"
  by (simp add: calculateRetryDelay_def backoffDelay_def Math_pow_def Math_min_def Let_def
        shrinking_options_def overflowing_options_def round_in_range_def MAX_VALUE_def
        OVERFLOW_def)

subsection \<open>Which errors are retried\<close>

lemma shouldRetry_timeout:
  "\<not> shouldRetry c (NetworkError ''Request timeout'' orig False cx) attempt"
  by (simp add: shouldRetry_def NetworkError_def new_VocaFuseError_def instanceof_VocaFuseError_def)

lemma shouldRetry_network_failure:
  "shouldRetry c (NetworkError ''Network request failed'' orig True cx) attempt
     = (int attempt < maxRetries (retryOptions c))"
  by (auto simp: shouldRetry_def NetworkError_def new_VocaFuseError_def instanceof_VocaFuseError_def
        instanceof_class_def)

text \<open>
  Whatever the configuration: an attempt that ends in an abort is the last one. The loop
  leaves with the non-retryable \<^verbatim>\<open>NetworkError('Request timeout')\<close> after that attempt and
  sleeps no further delay.
\<close>

lemma request_loop_timeout:
  assumes "fetches attempt = Rejects e" and "name e = ''AbortError''" and "int attempt \<le> maxAttempts"
  shows "request_loop fl c fullUrl fetches rnd maxAttempts attempt lastError slept
         = (Inl (Some (NetworkError ''Request timeout'' (Some e) False (Some [(''url'', JStr fullUrl)]))),
            attempt, slept)"
  using assms
  by (subst request_loop.simps) (simp add: executeRequest_def shouldRetry_timeout)

text \<open>
  The sibling path: with the default options, a request whose every attempt fails in the
  network is attempted three times, with the delays 1000 and 2000 in between.
\<close>

lemma request_network_failure_retried:
  "request round_in_range example_client ''/upload'' None (Some ''POST'')
       (\<lambda>_. Rejects (Error ''TypeError'' ''Failed to fetch'')) (\<lambda>_. 0)
   = (Inl (NetworkError ''Network request failed'' (Some (Error ''TypeError'' ''Failed to fetch'')) True
             (Some [(''url'', JStr ''https://api.vocafuse.com/upload'')])),
      3, [Fin 1000, Fin 2000])"
  by (simp add: request_def example_client_def new_HttpClient_def defaultRetryOptions_def buildUrl_def
        startsWith_def request_loop.simps executeRequest_def shouldRetry_def NetworkError_def
        new_VocaFuseError_def instanceof_VocaFuseError_def instanceof_class_def wrapUnknownError_def
        calculateRetryDelay_def backoffDelay_def Math_pow_def Math_min_def round_in_range_def
        MAX_VALUE_def OVERFLOW_def)

text \<open>
  Claim C2, evaluated on the code. With the default options (three retries, so up to four
  attempts), a request whose first attempt times out (\<^verbatim>\<open>fetch\<close> rejects with
  \<^verbatim>\<open>AbortError\<close>) makes exactly one attempt, sleeps no retry delay, and rejects with
  \<^verbatim>\<open>NetworkError('Request timeout')\<close>, built with \<open>retryable = false\<close>: the timed-out
  attempt is not followed by another one.
\<close>

theorem request_timeout_not_retried:
  "request fl example_client ''/upload'' None (Some ''POST'') (\<lambda>_. Rejects AbortError) (\<lambda>_. 0)
   = (Inl (NetworkError ''Request timeout'' (Some AbortError) False
             (Some [(''url'', JStr ''https://api.vocafuse.com/upload'')])),
      1, [])
   \<and> \<not> retryable (NetworkError ''Request timeout'' (Some AbortError) False
                     (Some [(''url'', JStr ''https://api.vocafuse.com/upload'')]))"
  by (simp add: request_def example_client_def AbortError_def new_HttpClient_def defaultRetryOptions_def
        buildUrl_def startsWith_def request_loop.simps executeRequest_def shouldRetry_def
        NetworkError_def new_VocaFuseError_def instanceof_VocaFuseError_def wrapUnknownError_def)

section \<open>Response processing\<close>

lemma hasData_normalizeEnvelope: "hasData (normalizeEnvelope r body)"
  by (simp add: normalizeEnvelope_def)

lemma normalizeEnvelope_idempotent:
  "normalizeEnvelope r' (normalizeEnvelope r body) = normalizeEnvelope r body"
  by (simp add: normalizeEnvelope_def)

lemma processResponse_ok:
  "ok r \<Longrightarrow> readBody r = Inr body \<Longrightarrow> processResponse r = Inr (normalizeEnvelope r body)"
  by (simp add: processResponse_def)

text \<open>
  Claim C8. For a successful response whose parsed body has no \<^verbatim>\<open>data\<close> field,
  \<^verbatim>\<open>processResponse\<close> returns the envelope with \<open>object = "response"\<close>, \<open>data\<close> the raw
  body, and \<open>request_id\<close> the \<^verbatim>\<open>X-Request-Id\<close> header or \<open>"unknown"\<close>. Processing a
  successful response whose body is the result of an earlier normalization returns that
  result unchanged, and normalizing twice is normalizing once.
\<close>

theorem processResponse_normalizes:
  "(ok r \<and> readBody r = Inr body \<and> \<not> hasData body \<longrightarrow>
      processResponse r
        = Inr (JObj [(''object'', JStr ''response''), (''data'', body),
                     (''request_id'', JStr (case headers_get r ''x-request-id'' of
                                               None \<Rightarrow> ''unknown''
                                             | Some v \<Rightarrow> if v = [] then ''unknown'' else v))])
      \<and> (\<forall>env. processResponse r = Inr env \<longrightarrow> get_prop env ''data'' = Inr body))
   \<and> (ok r \<and> readBody r = Inr body \<and> ok r' \<and> readBody r' = processResponse r \<longrightarrow>
        processResponse r' = processResponse r)
   \<and> normalizeEnvelope r' (normalizeEnvelope r body) = normalizeEnvelope r body"
proof (intro conjI impI)
  assume a: "ok r \<and> readBody r = Inr body \<and> \<not> hasData body"
  then show "processResponse r
        = Inr (JObj [(''object'', JStr ''response''), (''data'', body),
                     (''request_id'', JStr (case headers_get r ''x-request-id'' of
                                               None \<Rightarrow> ''unknown''
                                             | Some v \<Rightarrow> if v = [] then ''unknown'' else v))])"
    by (simp add: processResponse_ok normalizeEnvelope_def)
  then show "\<forall>env. processResponse r = Inr env \<longrightarrow> get_prop env ''data'' = Inr body"
    by simp
next
  assume b: "ok r \<and> readBody r = Inr body \<and> ok r' \<and> readBody r' = processResponse r"
  then have "processResponse r = Inr (normalizeEnvelope r body)"
    by (simp add: processResponse_ok)
  moreover from this b have "processResponse r' = Inr (normalizeEnvelope r' (normalizeEnvelope r body))"
    by (simp add: processResponse_ok)
  ultimately show "processResponse r' = processResponse r"
    by (simp add: normalizeEnvelope_idempotent)
next
  show "normalizeEnvelope r' (normalizeEnvelope r body) = normalizeEnvelope r body"
    by (rule normalizeEnvelope_idempotent)
qed

lemma readBody_example: "readBody example_response = Inr (JObj [(''foo'', JNum 1)])"
  by (simp add: example_response_def readBody_def headers_get_def startsWith_def)

theorem processResponse_normalizes_witness:
  "ok example_response \<and> readBody example_response = Inr (JObj [(''foo'', JNum 1)])
   \<and> \<not> hasData (JObj [(''foo'', JNum 1)])
   \<and> processResponse example_response
       = Inr (JObj [(''object'', JStr ''response''), (''data'', JObj [(''foo'', JNum 1)]),
                    (''request_id'', JStr ''unknown'')])
   \<and> ok (example_response\<lparr>json := processResponse example_response\<rparr>)
   \<and> readBody (example_response\<lparr>json := processResponse example_response\<rparr>)
       = processResponse example_response
   \<and> processResponse (example_response\<lparr>json := processResponse example_response\<rparr>)
       = processResponse example_response"
proof -
  note inst = processResponse_normalizes
                [of example_response "JObj [(''foo'', JNum 1)]"
                    "example_response\<lparr>json := processResponse example_response\<rparr>"]
  have h1: "ok example_response"
    by (simp add: ok_def example_response_def)
  have h2: "\<not> hasData (JObj [(''foo'', JNum 1)])"
    by simp
  have h3: "ok (example_response\<lparr>json := processResponse example_response\<rparr>)"
    by (simp add: ok_def example_response_def)
  have h4: "readBody (example_response\<lparr>json := processResponse example_response\<rparr>)
              = processResponse example_response"
    by (simp add: example_response_def readBody_def headers_get_def startsWith_def)
  have h5: "headers_get example_response ''x-request-id'' = None"
    by (simp add: example_response_def headers_get_def)
  from inst h1 readBody_example h2
  have "processResponse example_response
          = Inr (JObj [(''object'', JStr ''response''), (''data'', JObj [(''foo'', JNum 1)]),
                       (''request_id'', JStr (case headers_get example_response ''x-request-id'' of
                                                 None \<Rightarrow> ''unknown''
                                               | Some v \<Rightarrow> if v = [] then ''unknown'' else v))])"
    by blast
  then have c1: "processResponse example_response
          = Inr (JObj [(''object'', JStr ''response''), (''data'', JObj [(''foo'', JNum 1)]),
                       (''request_id'', JStr ''unknown'')])"
    by (simp add: h5)
  from inst h1 readBody_example h3 h4
  have c2: "processResponse (example_response\<lparr>json := processResponse example_response\<rparr>)
              = processResponse example_response"
    by blast
  show ?thesis
    by (intro conjI h1 readBody_example h2 c1 h3 h4 c2)
qed

section \<open>Token requests\<close>

lemma new_TokenManager_example: "new_TokenManager ''/api/token'' None None = Inr example_tokenManager"
  by (simp add: new_TokenManager_def example_tokenManager_def)

lemma getToken_call_uncached:
  "actualJwtToken tm = None \<Longrightarrow>
     getToken_call now tm = (Awaiting (Suc (fetched tm)), tm\<lparr>fetched := Suc (fetched tm)\<rparr>)"
  by (simp add: getToken_call_def fetchTokenData_call_def)

text \<open>
  Once a request has stored a token, calls made while the token is valid return it without
  a request.
\<close>

lemma getToken_call_cached:
  assumes "fetchTokenData_settle now
             (TokenHttp 200 ''OK''
                (Inr \<lparr>success = True,
                      data = Some \<lparr>id_token = Some tok, token_type = None, expires_in = Some 3600,
                                   tenant_id = None, scopes = None\<rparr>\<rparr>)) tm = Inr tm'"
      and "tok \<noteq> []" and "now' + refreshBuffer tm * 1000 < now + 3600 * 1000"
  shows "getToken_call now' tm' = (Returned tok, tm')"
  using assms
  by (auto simp: fetchTokenData_settle_def getToken_call_def isTokenValid_def Let_def)

text \<open>
  While no token is stored, every call of \<^verbatim>\<open>getToken()\<close> sends a request of its own:
  \<open>n\<close> calls made before any request settles send \<open>n\<close> requests.
\<close>

lemma getToken_calls_fetched:
  "actualJwtToken tm = None \<Longrightarrow> fetched (snd (getToken_calls n now tm)) = fetched tm + n"
  by (induction n arbitrary: tm) (simp_all add: getToken_call_uncached split_beta)

text \<open>
  The sibling path: \<^verbatim>\<open>refreshToken()\<close> shares the pending request, so any positive
  number of overlapping calls sends one request.
\<close>

lemma refreshToken_calls_pending:
  "refreshPromise tm = Some p \<Longrightarrow> refreshToken_calls n tm = (replicate n p, tm)"
  by (induction n) (simp_all add: refreshToken_call_def)

lemma refreshToken_calls_fetched:
  "refreshPromise tm = None \<Longrightarrow> fetched (snd (refreshToken_calls (Suc n) tm)) = fetched tm + 1"
  by (simp add: refreshToken_call_def fetchTokenData_call_def refreshToken_calls_pending)

text \<open>
  Claim C1, evaluated on the code. Two calls of \<^verbatim>\<open>getToken()\<close> on a new token manager,
  the second made before the request of the first has settled, wait for two different
  requests: the token endpoint receives two requests, not one.
\<close>

theorem getToken_concurrent_calls_fetch_twice:
  "getToken_calls 2 0 example_tokenManager
     = ([Awaiting 1, Awaiting 2], example_tokenManager\<lparr>fetched := 2\<rparr>)"
  by (simp add: numeral_2_eq_2 getToken_call_def fetchTokenData_call_def example_tokenManager_def)

section \<open>JWT helpers are total\<close>

text \<open>Reading a property of a truthy value does not throw.\<close>

lemma truthy_get_prop: "truthy v \<Longrightarrow> \<exists>w. get_prop v k = Inr w"
  by (cases v) simp_all

lemma decodeJwtPayload_returns: "\<exists>v. decodeJwtPayload atob parse token = Inr v"
  by (cases "decodeJwtPayload_try atob parse token") (simp_all add: decodeJwtPayload_def)

lemma length_split: "length (split s sep) = Suc (length (filter (\<lambda>x. x = sep) s))"
  by (induction s) (auto split: list.splits)

text \<open>
  Claim C10. Whatever \<^verbatim>\<open>atob\<close> and \<^verbatim>\<open>JSON.parse\<close> do on their inputs,
  \<^verbatim>\<open>decodeJwtPayload\<close> returns a value and never throws; it returns \<^verbatim>\<open>null\<close> when the token
  does not split into exactly three segments at the dots, when \<^verbatim>\<open>atob\<close> rejects the padded
  middle segment, and when \<^verbatim>\<open>JSON.parse\<close> rejects the decoded text. \<^verbatim>\<open>isJwtExpired\<close> returns
  a value and never throws, and it returns \<^verbatim>\<open>true\<close> when the decoded payload is \<^verbatim>\<open>null\<close> or
  has no numeric \<^verbatim>\<open>exp\<close>.
\<close>

theorem decodeJwtPayload_total:
  "(\<exists>v. decodeJwtPayload atob parse token = Inr v)
   \<and> (length (split token CHR ''.'') \<noteq> 3 \<longrightarrow> decodeJwtPayload atob parse token = Inr JNull)
   \<and> (\<forall>e. length (split token CHR ''.'') = 3
          \<and> atob (split token CHR ''.'' ! 1
                   @ replicate ((4 - length (split token CHR ''.'' ! 1) mod 4) mod 4) CHR ''='') = Inl e
        \<longrightarrow> decodeJwtPayload atob parse token = Inr JNull)
   \<and> (\<forall>d e. length (split token CHR ''.'') = 3
          \<and> atob (split token CHR ''.'' ! 1
                   @ replicate ((4 - length (split token CHR ''.'' ! 1) mod 4) mod 4) CHR ''='') = Inr d
          \<and> parse d = Inl e
        \<longrightarrow> decodeJwtPayload atob parse token = Inr JNull)
   \<and> (\<exists>b. isJwtExpired atob parse now token = Inr b)
   \<and> (\<forall>p. decodeJwtPayload atob parse token = Inr p
          \<and> (p = JNull \<or> \<not> (\<exists>x. get_prop p ''exp'' = Inr (JNum x)))
        \<longrightarrow> isJwtExpired atob parse now token = Inr True)"
proof -
  obtain p where p: "decodeJwtPayload atob parse token = Inr p"
    using decodeJwtPayload_returns [of atob parse token] by blast
  have expired: "\<exists>b. isJwtExpired atob parse now token = Inr b"
    using truthy_get_prop [of p "''exp''"]
    by (auto simp: isJwtExpired_def p split: sum.splits jsval.splits)
  have no_exp: "p = JNull \<or> \<not> (\<exists>x. get_prop p ''exp'' = Inr (JNum x))
                \<Longrightarrow> isJwtExpired atob parse now token = Inr True"
    using truthy_get_prop [of p "''exp''"]
    by (auto simp: isJwtExpired_def p split: sum.splits jsval.splits)
  show ?thesis
    using p expired no_exp
    by (auto simp: decodeJwtPayload_def decodeJwtPayload_try_def Let_def split: sum.splits)
qed

lemma replicate_small:
  "replicate 1 c = [c]" "replicate 2 c = [c, c]" "replicate 3 c = [c, c, c]"
  by (simp_all add: numeral_2_eq_2 numeral_3_eq_3)

lemma split_examples:
  "split ''abc'' CHR ''.'' = [''abc'']"
  "split ''a.!.c'' CHR ''.'' = [''a'', ''!'', ''c'']"
  "split ''a.eA.c'' CHR ''.'' = [''a'', ''eA'', ''c'']"
  "split ''a.e30.c'' CHR ''.'' = [''a'', ''e30'', ''c'']"
  by simp_all

theorem decodeJwtPayload_total_witness:
  "length (split ''abc'' CHR ''.'') \<noteq> 3
   \<and> decodeJwtPayload example_atob example_parse ''abc'' = Inr JNull
   \<and> length (split ''a.!.c'' CHR ''.'') = 3
   \<and> example_atob ''!==='' = Inl (Error ''InvalidCharacterError'' ''The string to be decoded is not correctly encoded.'')
   \<and> decodeJwtPayload example_atob example_parse ''a.!.c'' = Inr JNull
   \<and> example_atob ''eA=='' = Inr ''x'' \<and> example_parse ''x'' = Inl (Error ''SyntaxError'' ''Unexpected token'')
   \<and> decodeJwtPayload example_atob example_parse ''a.eA.c'' = Inr JNull
   \<and> isJwtExpired example_atob example_parse 0 ''a.eA.c'' = Inr True
   \<and> decodeJwtPayload example_atob example_parse ''a.e30.c'' = Inr (JObj [])
   \<and> \<not> (\<exists>x. get_prop (JObj []) ''exp'' = Inr (JNum x))
   \<and> isJwtExpired example_atob example_parse 0 ''a.e30.c'' = Inr True"
proof -
  have a1: "length (split ''abc'' CHR ''.'') \<noteq> 3"
    by (simp add: split_examples)
  have a2: "decodeJwtPayload example_atob example_parse ''abc'' = Inr JNull"
    using decodeJwtPayload_total [of example_atob example_parse "''abc''"] a1 by blast
  have b1: "length (split ''a.!.c'' CHR ''.'') = 3"
    by (simp add: split_examples)
  have b2: "example_atob ''!==='' = Inl (Error ''InvalidCharacterError'' ''The string to be decoded is not correctly encoded.'')"
    by (simp add: example_atob_def)
  have b3: "example_atob (split ''a.!.c'' CHR ''.'' ! 1
              @ replicate ((4 - length (split ''a.!.c'' CHR ''.'' ! 1) mod 4) mod 4) CHR ''='')
            = Inl (Error ''InvalidCharacterError'' ''The string to be decoded is not correctly encoded.'')"
    by (simp add: split_examples example_atob_def replicate_small)
  have b4: "decodeJwtPayload example_atob example_parse ''a.!.c'' = Inr JNull"
    using decodeJwtPayload_total [of example_atob example_parse "''a.!.c''"] b1 b3 by blast
  have c1: "example_atob ''eA=='' = Inr ''x''"
    by (simp add: example_atob_def)
  have c2: "example_parse ''x'' = Inl (Error ''SyntaxError'' ''Unexpected token'')"
    by (simp add: example_parse_def)
  have c3: "length (split ''a.eA.c'' CHR ''.'') = 3
            \<and> example_atob (split ''a.eA.c'' CHR ''.'' ! 1
              @ replicate ((4 - length (split ''a.eA.c'' CHR ''.'' ! 1) mod 4) mod 4) CHR ''='')
            = Inr ''x''"
    by (simp add: split_examples example_atob_def replicate_small)
  have c4: "decodeJwtPayload example_atob example_parse ''a.eA.c'' = Inr JNull"
    using decodeJwtPayload_total [of example_atob example_parse "''a.eA.c''"] c2 c3 by blast
  have c5: "isJwtExpired example_atob example_parse 0 ''a.eA.c'' = Inr True"
    using decodeJwtPayload_total [of example_atob example_parse "''a.eA.c''" 0] c4 by blast
  have d1: "decodeJwtPayload example_atob example_parse ''a.e30.c'' = Inr (JObj [])"
    by (simp add: decodeJwtPayload_def decodeJwtPayload_try_def split_examples example_atob_def
          example_parse_def replicate_small)
  have d2: "\<not> (\<exists>x. get_prop (JObj []) ''exp'' = Inr (JNum x))"
    by simp
  have d3: "isJwtExpired example_atob example_parse 0 ''a.e30.c'' = Inr True"
    using decodeJwtPayload_total [of example_atob example_parse "''a.e30.c''" 0] d1 d2 by blast
  show ?thesis
    by (intro conjI a1 a2 b1 b2 b4 c1 c2 c4 c5 d1 d2 d3)
qed

section \<open>The recorder's clock: pause, resume and the duration limit\<close>

lemma new_AudioRecorder_example:
  "new_AudioRecorder (Some d) (\<lambda>_. True) = Inr (example_recorder d)"
  by (simp add: new_AudioRecorder_def detectSupportedMimeType_def example_recorder_def)

text \<open>
  The getter \<^verbatim>\<open>state\<close> yields one of the platform's three strings, and none of them is the
  value \<^verbatim>\<open>'voicenote'\<close> that the enum gives to \<^verbatim>\<open>RECORDING\<close>.
\<close>

lemma state_values: "state r \<in> {''inactive'', ''recording'', ''paused''}"
  by (cases "mediaRecorder r"; cases "the (mediaRecorder r)") (simp_all add: state_def INACTIVE_def)

lemma state_not_RECORDING: "state r \<noteq> RECORDING"
  using state_values [of r] by (auto simp: RECORDING_def)

text \<open>Hence the guard of \<^verbatim>\<open>pause()\<close> rejects every call.\<close>

lemma AudioRecorder_pause_rejects:
  "AudioRecorder_pause now r
     = Inl (VoicenoteError RECORDING_FAILED (''Cannot pause voicenote: current state is '' @ state r)
              None None)"
  by (simp add: AudioRecorder_pause_def state_not_RECORDING)

text \<open>
  The statements behind the guards do keep the clock continuous: were a recorder paused at
  \<open>t1\<close> and resumed at \<open>t2\<close> by them, the elapsed time would stand still in between
  and a stop whose handler computes the duration at \<open>t4\<close> would leave out the time
  from \<open>t1\<close> to \<open>t2\<close>.
\<close>

lemma pause_body_freezes:
  "currentDuration now (pause_body t1 r) = (t1 - startTime r) / 1000"
  by (simp add: currentDuration_def pause_body_def stopProgressTimer_def state_def INACTIVE_def PAUSED_def)

lemma pause_resume_bodies_exclude_pause:
  assumes "stop_call (resume_body t2 (pause_body t1 r)) = Inr r'"
  shows "duration (fst (handleStop t4 r')) = ((t1 - startTime r) + (t4 - t2)) / 1000"
  using assms
  by (auto simp: stop_call_def resume_body_def pause_body_def handleStop_def startProgressTimer_def
        stopProgressTimer_def field_simps split: if_splits)

lemma start_example:
  "AudioRecorder_start 0 None None (example_recorder d)
     = (None, \<lparr>mediaRecorder = Some Recording, mediaStream = True, chunks = [], startTime = 0,
               pausedTime = 0, progressTimer = True, maxDuration = d,
               supportedMimeType = ''audio/webm;codecs=opus'', events = [MediaRecorder_start]\<rparr>)"
  by (simp add: AudioRecorder_start_def example_recorder_def state_def INACTIVE_def
        requestMicrophoneAccess_def startProgressTimer_def stopProgressTimer_def)

text \<open>
  Claim C6, evaluated on the code. A recorder started at time 0 is in the platform state
  \<^verbatim>\<open>"recording"\<close>. \<^verbatim>\<open>pause()\<close> after 1.0 s rejects with \<^verbatim>\<open>RECORDING_FAILED\<close> and changes
  nothing; so does \<^verbatim>\<open>resume()\<close> 5.0 s later; \<^verbatim>\<open>stop()\<close> after a further 1.0 s, with its
  wait of 100 ms, reports a duration of 7.1 s, not about 2.0 s.
\<close>

theorem pause_resume_rejected_duration_counts_pause:
  "(let r1 = snd (AudioRecorder_start 0 None None (example_recorder 60)) in
      fst (AudioRecorder_start 0 None None (example_recorder 60)) = None
      \<and> state r1 = ''recording''
      \<and> AudioRecorder_pause 1000 r1
          = Inl (VoicenoteError RECORDING_FAILED
                   ''Cannot pause voicenote: current state is recording'' None None)
      \<and> AudioRecorder_resume 6000 r1
          = Inl (VoicenoteError RECORDING_FAILED
                   ''Cannot resume voicenote: current state is recording'' None None)
      \<and> (case stop_call r1 of
            Inl e \<Rightarrow> False
          | Inr r2 \<Rightarrow> duration (fst (handleStop 7100 r2)) = 7.1))"
  by (simp only: start_example Let_def fst_conv snd_conv)
     (simp add: AudioRecorder_pause_def AudioRecorder_resume_def stop_call_def handleStop_def
        state_def RECORDING_def PAUSED_def INACTIVE_def stopProgressTimer_def)

text \<open>
  A firing of the timer at or past the limit, while the platform recorder is active, does
  what the first half of \<^verbatim>\<open>stop()\<close> does and nothing else.
\<close>

lemma tick_at_limit:
  assumes "progressTimer r" and "state r \<noteq> INACTIVE" and "currentDuration now r \<ge> maxDuration r"
  shows "tick numStr now r
           = stopProgressTimer (r\<lparr>mediaRecorder := Some Inactive,
                                  events := events r @ [MediaRecorder_stop]\<rparr>)"
  using assms by (simp add: tick_def stop_call_def Let_def)

text \<open>The error \<^verbatim>\<open>RECORDING_TOO_LONG\<close> appears only when the call of \<^verbatim>\<open>stop()\<close> rejects.\<close>

lemma tick_rejection_only_when_inactive:
  assumes "UnhandledRejection e \<in> set (events (tick numStr now r))"
      and "UnhandledRejection e \<notin> set (events r)"
  shows "state r = INACTIVE"
  using assms
  by (auto simp: tick_def stop_call_def stopProgressTimer_def Let_def split: if_splits)

lemma tick_timer_off: "\<not> progressTimer r \<Longrightarrow> tick numStr now r = r"
  by (simp add: tick_def)

text \<open>
  Claim C3, evaluated on the code. A recorder with a limit of 2 s is started at time 0 and
  its timer fires every 100 ms. The firings up to 1.9 s report progress; the firing at
  2.0 s calls \<^verbatim>\<open>stop()\<close> on the platform recorder and stops the timer; the stop handler,
  100 ms later, computes a duration of 2.1 s and releases the track. Nothing else
  happens: the trace holds no error, so no \<^verbatim>\<open>RECORDING_TOO_LONG\<close> reaches anyone.
\<close>

theorem auto_stop_reports_no_too_long:
  "(let r1 = snd (AudioRecorder_start 0 None None (example_recorder 2));
        r2 = ticks (\<lambda>_. ''2'')
               [100, 200, 300, 400, 500, 600, 700, 800, 900, 1000,
                1100, 1200, 1300, 1400, 1500, 1600, 1700, 1800, 1900, 2000] r1;
        r3 = snd (handleStop 2100 r2)
    in events r2
         = MediaRecorder_start
           # map (\<lambda>t. OnProgress (t / 1000))
               [100, 200, 300, 400, 500, 600, 700, 800, 900, 1000,
                1100, 1200, 1300, 1400, 1500, 1600, 1700, 1800, 1900]
           @ [MediaRecorder_stop]
       \<and> mediaRecorder r2 = Some Inactive \<and> \<not> progressTimer r2
       \<and> duration (fst (handleStop 2100 r2)) = 2.1
       \<and> events r3 = events r2 @ [Track_stop]
       \<and> (\<forall>e. UnhandledRejection e \<notin> set (events r3)))"
  by (simp only: start_example Let_def fst_conv snd_conv)
     (simp add: tick_def currentDuration_def stop_call_def handleStop_def cleanup_def state_def
        INACTIVE_def PAUSED_def stopProgressTimer_def)

section \<open>Cancelling an idle controller\<close>

lemma AudioRecorder_cancel_inactive: "state r = INACTIVE \<Longrightarrow> AudioRecorder_cancel r = r"
  by (simp add: AudioRecorder_cancel_def)

lemma state_AudioRecorder_cancel: "state (AudioRecorder_cancel r) = INACTIVE"
  by (simp add: AudioRecorder_cancel_def cleanup_def stopProgressTimer_def state_def)

text \<open>
  A controller is idle when it is new and after every \<^verbatim>\<open>cancel()\<close>; in both cases its
  audio recorder is inactive.
\<close>

lemma new_VoiceRecorder_idle:
  "state ar = INACTIVE \<Longrightarrow>
     c_state (new_VoiceRecorder opts ar) = idle \<and> state (audioRecorder (new_VoiceRecorder opts ar)) = INACTIVE"
  by (simp add: new_VoiceRecorder_def)

lemma VoiceRecorder_cancel_idle:
  "c_state (VoiceRecorder_cancel vr) = idle \<and> state (audioRecorder (VoiceRecorder_cancel vr)) = INACTIVE"
  by (simp add: VoiceRecorder_cancel_def setState_def Let_def state_AudioRecorder_cancel)

text \<open>
  Claim C5, as the code has it. On a controller that is idle and whose audio recorder is
  inactive, \<^verbatim>\<open>cancel()\<close> leaves the audio recorder as it is (no call reaches the capture
  device) and the state \<open>idle\<close>, but it does call the state-change hook, once, with
  \<open>idle\<close>, and then the cancel hook, when they are installed.
\<close>

theorem cancel_idle_notifies:
  "c_state vr = idle \<and> state (audioRecorder vr) = INACTIVE \<longrightarrow>
     VoiceRecorder_cancel vr
       = vr\<lparr>c_duration := 0, recordingResult := None,
            hookCalls := hookCalls vr
                          @ (if onStateChange (options vr) then [StateChange idle] else [])
                          @ (if onCancel (options vr) then [Cancelled] else [])\<rparr>"
  by (cases vr) (simp add: VoiceRecorder_cancel_def setState_def AudioRecorder_cancel_inactive Let_def)

theorem cancel_idle_notifies_witness:
  "c_state (new_VoiceRecorder \<lparr>autoUpload = None, onStateChange = True, onCancel = True\<rparr>
              (example_recorder 60)) = idle
   \<and> state (audioRecorder (new_VoiceRecorder \<lparr>autoUpload = None, onStateChange = True, onCancel = True\<rparr>
                              (example_recorder 60))) = INACTIVE
   \<and> VoiceRecorder_cancel (new_VoiceRecorder \<lparr>autoUpload = None, onStateChange = True, onCancel = True\<rparr>
                             (example_recorder 60))
       = (new_VoiceRecorder \<lparr>autoUpload = None, onStateChange = True, onCancel = True\<rparr>
            (example_recorder 60))\<lparr>hookCalls := [StateChange idle, Cancelled]\<rparr>"
  using cancel_idle_notifies
          [of "new_VoiceRecorder \<lparr>autoUpload = None, onStateChange = True, onCancel = True\<rparr>
                 (example_recorder 60)"]
  by (simp add: new_VoiceRecorder_def example_recorder_def state_def)

text \<open>
  The claim as stated fails: on a new controller with the state-change hook installed,
  \<^verbatim>\<open>cancel()\<close> calls the hook with \<open>idle\<close>.
\<close>

theorem cancel_idle_silent_counterexample:
  "hookCalls (VoiceRecorder_cancel
                (new_VoiceRecorder \<lparr>autoUpload = None, onStateChange = True, onCancel = False\<rparr>
                   (example_recorder 60)))
     = [StateChange idle]"
  by (simp add: VoiceRecorder_cancel_def new_VoiceRecorder_def setState_def AudioRecorder_cancel_def
        state_def example_recorder_def Let_def)

section \<open>Multipart upload: one failed part fails the whole\<close>

lemma uploadPart_class:
  "uploadPart i x = Inl e \<Longrightarrow>
     (case x of XhrLoad st txt \<Rightarrow> instanceof_class UploadErrorClass e
      | _ \<Rightarrow> instanceof_class NetworkErrorClass e)"
  by (auto simp: uploadPart_def UploadError_def NetworkError_def new_VocaFuseError_def
        instanceof_class_def split: xhr_outcome.splits if_splits)

lemma uploadPart_VocaFuseError: "uploadPart i x = Inl e \<Longrightarrow> instanceof_VocaFuseError e"
  by (auto simp: uploadPart_def UploadError_def NetworkError_def instanceof_new_VocaFuseError
        split: xhr_outcome.splits if_splits)

text \<open>A part's promise rejects exactly when its transfer does not end with a status in 200..299.\<close>

lemma uploadPart_rejects_iff:
  "isl (uploadPart i x) = (case x of XhrLoad st txt \<Rightarrow> \<not> (200 \<le> st \<and> st < 300) | _ \<Rightarrow> True)"
  by (simp add: uploadPart_def split: xhr_outcome.splits)

text \<open>
  \<^verbatim>\<open>Promise.all\<close> rejects as soon as one of its promises has rejected, with the rejection
  that came first: that of the earliest entry of \<open>order\<close> whose promise rejects.
\<close>

lemma promise_all_rejects:
  assumes "i < n" and "i \<in> set order" and "isl (settle i)"
  shows "\<exists>k e. k < length order \<and> order ! k < n \<and> settle (order ! k) = Inl e
               \<and> (\<forall>k'<k. \<not> (order ! k' < n \<and> isl (settle (order ! k'))))
               \<and> promise_all n settle order = Some (Inl e)"
proof -
  from assms obtain j where j: "find (\<lambda>i. i < n \<and> isl (settle i)) order = Some j"
    by (cases "find (\<lambda>i. i < n \<and> isl (settle i)) order") (auto simp: find_None_iff)
  then obtain k where k: "k < length order" "order ! k = j" "j < n" "isl (settle j)"
      "\<forall>k'<k. \<not> (order ! k' < n \<and> isl (settle (order ! k')))"
    unfolding find_Some_iff by blast
  from k(4) obtain e where e: "settle j = Inl e"
    by (cases "settle j") simp_all
  have "promise_all n settle order = Some (Inl e)"
    using j e by (simp add: promise_all_def)
  with k e show ?thesis
    by blast
qed

lemma promise_all_resolves:
  assumes "\<forall>i<n. \<not> isl (settle i)" and "\<forall>i<n. i \<in> set order"
  shows "promise_all n settle order = Some (Inr ())"
proof -
  have "find (\<lambda>i. i < n \<and> isl (settle i)) order = None"
    using assms(1) by (auto simp: find_None_iff)
  moreover have "list_all (\<lambda>i. i \<in> set order) [0..<n]"
    using assms(2) by (simp add: list_all_iff)
  ultimately show ?thesis
    by (simp add: promise_all_def)
qed

lemma upload_catch_VocaFuseError:
  "instanceof_VocaFuseError e \<Longrightarrow>
     upload_catch cfg e evs = (Some (Inl e), evs @ (if onError cfg then [OnError e] else []))"
  by (simp add: upload_catch_def wrapUnknownError_def Let_def)

text \<open>
  Claim C4, as the code has it. In a multipart upload in which some part's transfer ends
  in failure, \<^verbatim>\<open>upload()\<close> rejects with the error of the part that failed first, the
  earliest failing part in the order in which the transfers end: an \<^verbatim>\<open>UploadError\<close> when
  that transfer ended with a status outside 200..299, a \<^verbatim>\<open>NetworkError\<close> when it ended
  with a transport error or a timeout. No result is delivered to the completion callback,
  whatever the other parts did, and each part is sent exactly once: nothing is retried.
\<close>

theorem multipart_first_failure_propagates:
  assumes "upload_type resp = multipart" and "upload_info resp = Some parts"
      and "i < length parts" and "i \<in> set order" and "isl (uploadPart i (xhr i))"
  shows "\<exists>k j e. k < length order \<and> order ! k = j
           \<and> (\<forall>k'<k. \<not> (order ! k' < length parts
                         \<and> isl (uploadPart (order ! k') (xhr (order ! k')))))
           \<and> j < length parts \<and> uploadPart j (xhr j) = Inl e
           \<and> fst (upload cfg voicenote (Inr resp) sx xhr order) = Some (Inl e)
           \<and> (case xhr j of XhrLoad st txt \<Rightarrow> instanceof_class UploadErrorClass e
               | _ \<Rightarrow> instanceof_class NetworkErrorClass e)
           \<and> (\<forall>res. OnComplete res \<notin> set (snd (upload cfg voicenote (Inr resp) sx xhr order)))
           \<and> filter (\<lambda>ev. \<exists>u b. ev = Put u b) (snd (upload cfg voicenote (Inr resp) sx xhr order))
               = map (\<lambda>part. Put (part_presigned_url part)
                                  (slice (blob voicenote) (start_byte part) (end_byte part + 1)))
                     parts"
proof -
  from promise_all_rejects [of i "length parts" order "\<lambda>index. uploadPart index (xhr index)"] assms(3-5)
  obtain k e where k: "k < length order" "order ! k < length parts"
      "uploadPart (order ! k) (xhr (order ! k)) = Inl e"
      "\<forall>k'<k. \<not> (order ! k' < length parts \<and> isl (uploadPart (order ! k') (xhr (order ! k'))))"
    and pa: "promise_all (length parts) (\<lambda>index. uploadPart index (xhr index)) order = Some (Inl e)"
    by blast
  have vf: "instanceof_VocaFuseError e"
    using k(3) by (rule uploadPart_VocaFuseError)
  have up: "upload cfg voicenote (Inr resp) sx xhr order =
      (Some (Inl e),
       (notifyProgress cfg 0 @ notifyProgress cfg 10)
        @ map (\<lambda>part. Put (part_presigned_url part)
                           (slice (blob voicenote) (start_byte part) (end_byte part + 1))) parts
        @ (if onError cfg then [OnError e] else []))"
    using assms(1,2) pa
    by (simp add: upload_def requestPresignedUrl_def uploadMultipart_def Let_def
          upload_catch_VocaFuseError [OF vf])
  have cls: "case xhr (order ! k) of XhrLoad st txt \<Rightarrow> instanceof_class UploadErrorClass e
             | _ \<Rightarrow> instanceof_class NetworkErrorClass e"
    using k(3) by (rule uploadPart_class)
  have nocomplete: "\<forall>res. OnComplete res \<notin> set (snd (upload cfg voicenote (Inr resp) sx xhr order))"
    by (auto simp: up notifyProgress_def)
  have puts: "filter (\<lambda>ev. \<exists>u b. ev = Put u b) (snd (upload cfg voicenote (Inr resp) sx xhr order))
               = map (\<lambda>part. Put (part_presigned_url part)
                                  (slice (blob voicenote) (start_byte part) (end_byte part + 1)))
                     parts"
    by (simp add: up notifyProgress_def filter_map comp_def)
  have res: "fst (upload cfg voicenote (Inr resp) sx xhr order) = Some (Inl e)"
    by (simp add: up)
  from k cls nocomplete puts res show ?thesis
    by (intro exI [of _ k] exI [of _ "order ! k"] exI [of _ e]) blast
qed

text \<open>
  The plan of the specification's example: three parts, the second answered with HTTP 500
  after the other two have succeeded.
\<close>

lemma upload_example_500:
  "upload example_config example_voicenote (Inr example_plan) XhrTimeout part2_http500 [0, 2, 1]
   = (Some (Inl (UploadError ''Part 2 upload failed with status 500: Internal Server Error''
                   None True None)),
      [Progress 0, Progress 10, Put ''https://s3/p1'' ''ab'', Put ''https://s3/p2'' ''cd'',
       Put ''https://s3/p3'' ''ef'',
       OnError (UploadError ''Part 2 upload failed with status 500: Internal Server Error''
                  None True None)])"
  by (simp add: upload_def example_config_def example_voicenote_def example_plan_def example_parts_def
        part2_http500_def requestPresignedUrl_def uploadMultipart_def promise_all_def uploadPart_def
        upload_catch_def UploadError_def new_VocaFuseError_def instanceof_class_def
        string_of_nat.simps Let_def notifyProgress_def slice_def)

text \<open>
  Two failures: the second part is answered with HTTP 500 first, the third part fails in
  the network after it, and the first part succeeds last. The theorem gives the error of
  the second part.
\<close>

theorem multipart_first_failure_propagates_witness:
  "upload_type example_plan = multipart \<and> upload_info example_plan = Some example_parts
   \<and> 2 < length example_parts \<and> 2 \<in> set [1, 2, 0::nat]
   \<and> isl (uploadPart 2 (part2_http500_part3_network 2))
   \<and> fst (upload example_config example_voicenote (Inr example_plan) XhrTimeout
            part2_http500_part3_network [1, 2, 0])
       = Some (Inl (UploadError ''Part 2 upload failed with status 500: Internal Server Error''
                      None True None))
   \<and> (\<forall>res. OnComplete res \<notin> set (snd
          (upload example_config example_voicenote (Inr example_plan) XhrTimeout
             part2_http500_part3_network [1, 2, 0])))"
proof -
  have h1: "upload_type example_plan = multipart"
    by (simp add: example_plan_def)
  have h2: "upload_info example_plan = Some example_parts"
    by (simp add: example_plan_def)
  have h3: "2 < length example_parts"
    by (simp add: example_parts_def)
  have h4: "2 \<in> set [1, 2, 0::nat]"
    by simp
  have h5: "isl (uploadPart 2 (part2_http500_part3_network 2))"
    by (simp add: uploadPart_def part2_http500_part3_network_def)
  from multipart_first_failure_propagates
         [where resp = example_plan and parts = example_parts and i = 2 and order = "[1, 2, 0]"
            and xhr = part2_http500_part3_network and cfg = example_config
            and voicenote = example_voicenote and sx = XhrTimeout]
       h1 h2 h3 h4 h5
  obtain k j e where k: "k < length [1, 2, 0::nat]" "[1, 2, 0::nat] ! k = j"
      and first: "\<forall>k'<k. \<not> ([1, 2, 0::nat] ! k' < length example_parts
                    \<and> isl (uploadPart ([1, 2, 0::nat] ! k')
                             (part2_http500_part3_network ([1, 2, 0::nat] ! k'))))"
      and e: "uploadPart j (part2_http500_part3_network j) = Inl e"
      and res: "fst (upload example_config example_voicenote (Inr example_plan) XhrTimeout
                  part2_http500_part3_network [1, 2, 0]) = Some (Inl e)"
      and nocomplete: "\<forall>res. OnComplete res \<notin> set (snd
          (upload example_config example_voicenote (Inr example_plan) XhrTimeout
             part2_http500_part3_network [1, 2, 0]))"
    by blast
  have fails0: "[1, 2, 0::nat] ! 0 < length example_parts
                \<and> isl (uploadPart ([1, 2, 0::nat] ! 0)
                         (part2_http500_part3_network ([1, 2, 0::nat] ! 0)))"
    by (simp add: example_parts_def uploadPart_def part2_http500_part3_network_def)
  have "k = 0"
  proof (rule ccontr)
    assume "k \<noteq> 0"
    then have "0 < k" by simp
    with first fails0 show False by blast
  qed
  with k have "j = 1"
    by simp
  with e have "e = UploadError ''Part 2 upload failed with status 500: Internal Server Error''
                     None True None"
    by (simp add: uploadPart_def part2_http500_part3_network_def string_of_nat.simps)
  with res have c: "fst (upload example_config example_voicenote (Inr example_plan) XhrTimeout
            part2_http500_part3_network [1, 2, 0])
       = Some (Inl (UploadError ''Part 2 upload failed with status 500: Internal Server Error''
                      None True None))"
    by simp
  show ?thesis
    by (intro conjI h1 h2 h3 h4 h5 c nocomplete)
qed

text \<open>
  The claim as stated fails where a part fails in the network: in the same plan, with the
  transfer of the second part ending in a transport error, \<^verbatim>\<open>upload()\<close> rejects with a
  \<^verbatim>\<open>NetworkError\<close>, which is not an \<^verbatim>\<open>UploadError\<close>.
\<close>

theorem multipart_network_failure_counterexample:
  "fst (upload example_config example_voicenote (Inr example_plan) XhrTimeout
          part2_network_error [0, 2, 1])
     = Some (Inl (NetworkError ''Network error during part 2 upload'' None True None))
   \<and> \<not> instanceof_class UploadErrorClass
          (NetworkError ''Network error during part 2 upload'' None True None)
   \<and> code (NetworkError ''Network error during part 2 upload'' None True None) = NETWORK_ERROR"
  by (simp add: upload_def example_config_def example_voicenote_def example_plan_def example_parts_def
        part2_network_error_def requestPresignedUrl_def uploadMultipart_def promise_all_def
        uploadPart_def upload_catch_def NetworkError_def new_VocaFuseError_def instanceof_class_def
        wrapUnknownError_def instanceof_VocaFuseError_def string_of_nat.simps Let_def
        notifyProgress_def)

end
